theory Spec2Isabelle
  imports Main "HOL-Library.Word"
begin

unbundle bit_operations_syntax

section \<open>File redirection fixup: PathRedirection.cpp\<close>

text \<open>
  A shallow embedding of \<^verbatim>\<open>src/fixups/FileRedirectionFixup/PathRedirection.cpp\<close>.

  Representation. A C or C++ string (\<^verbatim>\<open>const CharT*\<close>, \<^verbatim>\<open>std::wstring\<close>,
  \<^verbatim>\<open>std::filesystem::path\<close>) is a \<^typ>\<open>string\<close> without its terminating NUL and holds no
  NUL; reading the terminator (\<^verbatim>\<open>p[0] == 0\<close>) is the test \<open>p = []\<close>, and the terminator is
  not a path separator. A pointer that may be null is a \<^typ>\<open>string option\<close>; a pointer into
  a string is the suffix it points at, taken to stay valid when the struct that holds both
  is moved. The narrow and the wide overloads of the source are one function here, on
  eight-bit characters; \<^verbatim>\<open>towlower\<close> and \<^verbatim>\<open>_wcsicmp\<close> act on ASCII letters.

  The release build is modelled: \<^verbatim>\<open>assert\<close> and the \<^verbatim>\<open>_DEBUG\<close> blocks are compiled out,
  and \<^verbatim>\<open>Log\<close> prints nothing then. The file system is a state that is passed along. A C++
  exception or a fault is a value of type \<open>error\<close>; exceptions of the standard library other
  than \<^verbatim>\<open>std::out_of_range\<close> from \<^verbatim>\<open>substr\<close> are not modelled.
\<close>

subsection \<open>Characters and C runtime helpers\<close>

definition bs :: char where
  "bs = CHR 0x5C"

text \<open>\<^verbatim>\<open>towlower\<close> on the ASCII range: an upper-case letter gets bit 5 set.\<close>

definition towlower :: "char \<Rightarrow> char" where
  "towlower c =
     (if c \<in> set ''ABCDEFGHIJKLMNOPQRSTUVWXYZ''
      then (case c of Char b0 b1 b2 b3 b4 b5 b6 b7 \<Rightarrow> Char b0 b1 b2 b3 b4 True b6 b7)
      else c)"

text \<open>\<^verbatim>\<open>_wcsicmp(a, b) == 0\<close>: equality after lower-casing both strings.\<close>

definition wcsicmp_eq :: "string \<Rightarrow> string \<Rightarrow> bool" where
  "wcsicmp_eq a b = (map towlower a = map towlower b)"

text \<open>\<^verbatim>\<open>s.find(needle, 0) == 0\<close>: the needle is found at the very start.\<close>

definition find_at_0 :: "string \<Rightarrow> string \<Rightarrow> bool" where
  "find_at_0 s needle = (take (length needle) s = needle)"

text \<open>\<^verbatim>\<open>haystack.find(needle)\<close>: the first position of the needle, \<open>None\<close> for \<^verbatim>\<open>npos\<close>.\<close>

fun wstring_find :: "string \<Rightarrow> string \<Rightarrow> nat option" where
  "wstring_find [] needle = (if needle = [] then Some 0 else None)"
| "wstring_find (c # cs) needle =
     (if take (length needle) (c # cs) = needle then Some 0
      else map_option Suc (wstring_find cs needle))"

text \<open>\<^verbatim>\<open>s.find_first_of(chars, pos)\<close>: the first index from \<open>pos\<close> on holding one of the
  characters.\<close>

fun find_first_of :: "string \<Rightarrow> char set \<Rightarrow> nat \<Rightarrow> nat option" where
  "find_first_of [] cs pos = None"
| "find_first_of (c # s) cs 0 =
     (if c \<in> cs then Some 0 else map_option Suc (find_first_of s cs 0))"
| "find_first_of (c # s) cs (Suc pos) = map_option Suc (find_first_of s cs pos)"

subsection \<open>Data model\<close>

text \<open>
  Modelled from the spec: the enumeration \<^verbatim>\<open>psf::dos_path_type\<close>, declared outside
  \<^verbatim>\<open>src/\<close>. The source and the specification name \<open>unknown\<close>, \<open>unc_absolute\<close>,
  \<open>drive_absolute\<close>, \<open>local_device\<close> and \<open>root_local_device\<close>; the other three stand for
  the relative forms, which \<^verbatim>\<open>NormalizePathImpl\<close> canonicalises like the rest.
\<close>

datatype dos_path_type =
  unknown | unc_absolute | drive_absolute | drive_relative | rooted | relative
  | local_device | root_local_device

text \<open>
  Modelled from the spec: the structs \<^verbatim>\<open>normalized_path\<close> and \<^verbatim>\<open>path_redirect_info\<close> and
  the flag set \<^verbatim>\<open>redirect_flags\<close> of PathRedirection.h, which is not under \<^verbatim>\<open>src/\<close>; the
  field names are those the source uses. \<open>drive_absolute_path\<close> points into \<open>full_path\<close> or
  is null; a default-constructed \<^verbatim>\<open>normalized_path\<close> is empty with a null pointer, and a
  default-constructed \<^verbatim>\<open>path_redirect_info\<close> says "no redirect" with an empty path. The
  three flags are independent bits.
\<close>

record normalized_path =
  full_path :: string
  drive_absolute_path :: "string option"

record path_redirect_info =
  should_redirect :: bool
  redirect_path :: string
  shouldReadonly :: bool

datatype redirect_flags = ensure_directory_structure | copy_file | check_file_presence

text \<open>The structs of the source file. A compiled \<^verbatim>\<open>std::wregex\<close> is the predicate
  \<^verbatim>\<open>std::regex_match(s, pattern)\<close>: the strings that the pattern matches as a whole.\<close>

record vfs_folder_mapping =
  path :: string
  package_vfs_relative_path :: string

record path_redirection_spec =
  base_path :: string
  pattern :: "string \<Rightarrow> bool"
  redirect_targetbase :: string
  isExclusion :: bool
  isReadOnly :: bool

definition flag_set :: "redirect_flags set \<Rightarrow> redirect_flags \<Rightarrow> bool" where
  "flag_set flags f = (f \<in> flags)"

datatype error = out_of_range | access_violation

text \<open>The globals of the translation unit, set once by \<^verbatim>\<open>InitializePaths\<close> and
  \<^verbatim>\<open>InitializeConfiguration\<close>.\<close>

record globals =
  g_packageRootPath :: string
  g_packageVfsRootPath :: string
  g_redirectRootPath :: string
  g_writablePackageRootPath :: string
  g_finalPackageRootPath :: string
  g_vfsFolderMappings :: "vfs_folder_mapping list"
  g_redirectionSpecs :: "path_redirection_spec list"

text \<open>
  What the file calls and \<^verbatim>\<open>src/\<close> does not hold is a parameter: the helpers of namespace
  \<^verbatim>\<open>psf\<close> (utilities.h, psf_framework.h), the C runtime's \<^verbatim>\<open>sscanf_s\<close>, and the
  operating system behind \<^verbatim>\<open>impl::\<close>, acting on a file system state \<open>'fs\<close>.
  \<open>crt_sscanf_x s\<close> is the value \<^verbatim>\<open>sscanf_s(s, "%x", &ii)\<close> stores, \<open>None\<close> when it converts
  nothing and leaves \<open>ii\<close> as it was; \<open>uninitialized_ii\<close> is the indeterminate first value
  of that variable.
\<close>

record 'fs platform =
  psf_is_path_separator :: "char \<Rightarrow> bool"
  psf_path_compare :: "char \<Rightarrow> char \<Rightarrow> bool"
  psf_path_type :: "string \<Rightarrow> dos_path_type"
  psf_full_path :: "string \<Rightarrow> string"
  psf_remove_trailing_path_separators :: "string \<Rightarrow> string"
  psf_current_package_family_name :: string
  crt_sscanf_x :: "string \<Rightarrow> 32 word option"
  uninitialized_ii :: "32 word"
  impl_PathExists :: "'fs \<Rightarrow> string \<Rightarrow> bool"
  impl_CreateDirectory :: "string \<Rightarrow> 'fs \<Rightarrow> bool \<times> 'fs"
  impl_GetFileAttributes :: "'fs \<Rightarrow> string \<Rightarrow> 32 word"
  impl_CopyFileEx :: "string \<Rightarrow> string \<Rightarrow> 32 word \<Rightarrow> 'fs \<Rightarrow> bool \<times> 'fs"
  impl_CreateDirectoryEx :: "string \<Rightarrow> string \<Rightarrow> 'fs \<Rightarrow> bool \<times> 'fs"

subsection \<open>Prefix test\<close>

text \<open>
  \<^verbatim>\<open>std::equal(basePath.begin(), basePath.end(), path, psf::path_compare{})\<close>: the base is
  compared with as many characters of the C string. Where the string is shorter the comparison
  reaches its terminator, which no character of a base path equals.
\<close>

fun std_equal :: "(char \<Rightarrow> char \<Rightarrow> bool) \<Rightarrow> string \<Rightarrow> string \<Rightarrow> bool" where
  "std_equal cmp [] p = True"
| "std_equal cmp (b # base) [] = False"
| "std_equal cmp (b # base) (c # p) = (cmp b c \<and> std_equal cmp base p)"

definition path_relative_to :: "'fs platform \<Rightarrow> string \<Rightarrow> string \<Rightarrow> bool" where
  "path_relative_to P p basePath = std_equal (psf_path_compare P) basePath p"

subsection \<open>Normalisation\<close>

definition IsColonColonGuid :: "string \<Rightarrow> bool" where
  "IsColonColonGuid p = (length p > 39 \<and> take 3 p = ''::{'')"

definition IsBlobColon :: "string \<Rightarrow> bool" where
  "IsBlobColon p = (if find_at_0 p ''blob:'' then True
                    else if find_at_0 p ''BLOB:'' then True else False)"

text \<open>\<^verbatim>\<open>UrlDecode\<close>: at a percent sign the next two characters go through
  \<^verbatim>\<open>sscanf_s\<close>, the low byte of \<open>ii\<close> is appended, and two characters are skipped. (The
  wide overload appends that byte as a signed \<^verbatim>\<open>char\<close>, which differs above \<^verbatim>\<open>0x7F\<close> only.)\<close>

function UrlDecode_loop :: "(string \<Rightarrow> 32 word option) \<Rightarrow> 32 word \<Rightarrow> string \<Rightarrow> string" where
  "UrlDecode_loop scan ii [] = []"
| "UrlDecode_loop scan ii (c # str) =
     (if c \<noteq> CHR ''%'' then c # UrlDecode_loop scan ii str
      else (let ii' = (case scan (take 2 str) of Some v \<Rightarrow> v | None \<Rightarrow> ii)
            in char_of (unat ii') # UrlDecode_loop scan ii' (drop 2 str)))"
  by pat_completeness auto
termination
  by (relation "measure (\<lambda>(scan, ii, str). length str)") auto

definition UrlDecode :: "'fs platform \<Rightarrow> string \<Rightarrow> string" where
  "UrlDecode P str = UrlDecode_loop (crt_sscanf_x P) (uninitialized_ii P) str"

definition StripFileColonSlash :: "string \<Rightarrow> string" where
  "StripFileColonSlash old_string =
     (if find_at_0 old_string (''file:'' @ [bs]) then drop 6 old_string
      else if find_at_0 old_string ''file:/'' then drop 6 old_string
      else if find_at_0 old_string (''FILE:'' @ [bs]) then drop 6 old_string
      else if find_at_0 old_string ''FILE:/'' then drop 6 old_string
      else old_string)"

definition empty_normalized_path :: normalized_path where
  "empty_normalized_path = \<lparr>full_path = [], drive_absolute_path = None\<rparr>"

text \<open>The second half of \<^verbatim>\<open>NormalizePathImpl\<close>: the drive-absolute form for the type of the
  full path. The last branch is the one behind \<^verbatim>\<open>assert(false)\<close>.\<close>

definition set_drive_absolute :: "'fs platform \<Rightarrow> normalized_path \<Rightarrow> dos_path_type \<Rightarrow> normalized_path" where
  "set_drive_absolute P result pathType =
     (if pathType = drive_absolute
      then result\<lparr>drive_absolute_path := Some (full_path result)\<rparr>
      else if pathType = local_device \<or> pathType = root_local_device
      then (let candidatePath = drop 4 (full_path result)
            in if psf_path_type P candidatePath = drive_absolute
               then result\<lparr>drive_absolute_path := Some candidatePath\<rparr>
               else result)
      else if pathType = unc_absolute then result
      else empty_normalized_path)"

definition NormalizePathImpl :: "'fs platform \<Rightarrow> string \<Rightarrow> normalized_path" where
  "NormalizePathImpl P p =
     (let pathType = psf_path_type P p
      in if pathType = root_local_device
         then set_drive_absolute P \<lparr>full_path = p, drive_absolute_path = None\<rparr> pathType
         else if pathType \<noteq> unknown
         then (let full = psf_full_path P p
               in set_drive_absolute P \<lparr>full_path = full, drive_absolute_path = None\<rparr>
                    (psf_path_type P full))
         else empty_normalized_path)"

definition NormalizePath :: "'fs platform \<Rightarrow> string option \<Rightarrow> normalized_path" where
  "NormalizePath P p =
     (case p of
        None \<Rightarrow> NormalizePathImpl P ''.''
      | Some s \<Rightarrow>
          if s \<noteq> [] then
            (if IsColonColonGuid s then \<lparr>full_path = s, drive_absolute_path = None\<rparr>
             else if IsBlobColon s then \<lparr>full_path = s, drive_absolute_path = None\<rparr>
             else NormalizePathImpl P (StripFileColonSlash (UrlDecode P s)))
          else NormalizePathImpl P ''.'')"

subsection \<open>Appending paths\<close>

text \<open>
  \<^verbatim>\<open>std::filesystem::path::operator/\<close> as the C++17 standard words it (fs.path.append) and
  the standard library for Windows implements it: an absolute right operand, or one with
  another root name, replaces the left one; a right operand with a root directory keeps only
  the left root name; otherwise a preferred separator is put between the two unless the left
  operand is empty, a bare drive or ends in a separator; the right operand is appended
  without its root name. The root name is a drive \<^verbatim>\<open>X:\<close>, the first three characters of a
  device prefix, or two slashes and a server name.
\<close>

definition is_slash :: "char \<Rightarrow> bool" where
  "is_slash c = (c = bs \<or> c = CHR ''/'')"

definition has_drive_letter_prefix :: "string \<Rightarrow> bool" where
  "has_drive_letter_prefix s =
     (case s of
        a # b # _ \<Rightarrow> towlower a \<in> set ''abcdefghijklmnopqrstuvwxyz'' \<and> b = CHR '':''
      | _ \<Rightarrow> False)"

definition find_root_name_end :: "string \<Rightarrow> nat" where
  "find_root_name_end s =
     (if length s < 2 then 0
      else if has_drive_letter_prefix s then 2
      else if \<not> is_slash (s ! 0) then 0
      else if length s \<ge> 4 \<and> is_slash (s ! 3) \<and> (length s = 4 \<or> \<not> is_slash (s ! 4))
              \<and> ((is_slash (s ! 1) \<and> (s ! 2 = CHR ''?'' \<or> s ! 2 = CHR ''.''))
                   \<or> (s ! 1 = CHR ''?'' \<and> s ! 2 = CHR ''?''))
      then 3
      else if length s \<ge> 3 \<and> is_slash (s ! 1) \<and> \<not> is_slash (s ! 2)
      then 3 + length (takeWhile (\<lambda>c. \<not> is_slash c) (drop 3 s))
      else 0)"

definition is_absolute :: "string \<Rightarrow> bool" where
  "is_absolute s =
     (if has_drive_letter_prefix s then length s \<ge> 3 \<and> is_slash (s ! 2)
      else find_root_name_end s \<noteq> 0)"

definition path_append :: "string \<Rightarrow> string \<Rightarrow> string" where
  "path_append a b =
     (if is_absolute b then b
      else
        (let my_root_name_end = find_root_name_end a;
             other_root_name_end = find_root_name_end b
         in if other_root_name_end \<noteq> 0 \<and> take my_root_name_end a \<noteq> take other_root_name_end b
            then b
            else if other_root_name_end < length b \<and> is_slash (b ! other_root_name_end)
            then take my_root_name_end a @ drop other_root_name_end b
            else (if my_root_name_end = length a
                  then (if my_root_name_end \<ge> 3 then a @ [bs] else a)
                  else (if \<not> is_slash (last a) then a @ [bs] else a))
                 @ drop other_root_name_end b))"

subsection \<open>The VFS mapping\<close>

text \<open>The loop of \<^verbatim>\<open>DeVirtualizePath\<close> over \<^verbatim>\<open>g_vfsFolderMappings\<close>: \<^verbatim>\<open>continue\<close> is the
  recursive call, \<^verbatim>\<open>break\<close> returns.\<close>

fun DeVirtualizePath_loop ::
  "'fs platform \<Rightarrow> string \<Rightarrow> vfs_folder_mapping list \<Rightarrow> normalized_path \<Rightarrow> normalized_path" where
  "DeVirtualizePath_loop P packageRelativePath [] np = np"
| "DeVirtualizePath_loop P packageRelativePath (mapping # mappings) np =
     (if path_relative_to P packageRelativePath (package_vfs_relative_path mapping)
      then (let vfsRelativePath =
                  drop (length (package_vfs_relative_path mapping)) packageRelativePath
            in if vfsRelativePath \<noteq> [] \<and> psf_is_path_separator P (hd vfsRelativePath)
               then (let full = path_append (path mapping) (tl vfsRelativePath)
                     in np\<lparr>full_path := full, drive_absolute_path := Some full\<rparr>)
               else if vfsRelativePath \<noteq> []
               then DeVirtualizePath_loop P packageRelativePath mappings np
               else (let full = path_append (path mapping) vfsRelativePath
                     in np\<lparr>full_path := full, drive_absolute_path := Some full\<rparr>))
      else DeVirtualizePath_loop P packageRelativePath mappings np)"

definition DeVirtualizePath :: "'fs platform \<Rightarrow> globals \<Rightarrow> normalized_path \<Rightarrow> normalized_path" where
  "DeVirtualizePath P G np =
     (case drive_absolute_path np of
        None \<Rightarrow> np
      | Some dap \<Rightarrow>
          if path_relative_to P dap (g_packageVfsRootPath G)
          then (let packageRelativePath = drop (length (g_packageVfsRootPath G)) dap
                in if packageRelativePath \<noteq> [] \<and> psf_is_path_separator P (hd packageRelativePath)
                   then DeVirtualizePath_loop P (tl packageRelativePath) (g_vfsFolderMappings G) np
                   else np)
          else np)"

text \<open>The loop of \<^verbatim>\<open>VirtualizePath\<close>; it is run on the reversed table.\<close>

fun VirtualizePath_loop ::
  "'fs platform \<Rightarrow> globals \<Rightarrow> vfs_folder_mapping list \<Rightarrow> normalized_path \<Rightarrow> normalized_path" where
  "VirtualizePath_loop P G [] np = np"
| "VirtualizePath_loop P G (mapping # mappings) np =
     (if path_relative_to P (full_path np) (path mapping)
      then (let vfsRelativePath0 = drop (length (path mapping)) (full_path np);
                vfsRelativePath =
                  (if vfsRelativePath0 \<noteq> [] \<and> psf_is_path_separator P (hd vfsRelativePath0)
                   then tl vfsRelativePath0 else vfsRelativePath0);
                full = path_append
                         (path_append (g_packageVfsRootPath G) (package_vfs_relative_path mapping))
                         vfsRelativePath
            in np\<lparr>full_path := full, drive_absolute_path := Some full\<rparr>)
      else VirtualizePath_loop P G mappings np)"

text \<open>The first test of \<^verbatim>\<open>VirtualizePath\<close>: the drive-absolute path is there and begins with
  the package root.\<close>

definition in_package :: "'fs platform \<Rightarrow> globals \<Rightarrow> normalized_path \<Rightarrow> bool" where
  "in_package P G np =
     (case drive_absolute_path np of
        None \<Rightarrow> False
      | Some dap \<Rightarrow> path_relative_to P dap (g_packageRootPath G))"

definition VirtualizePath :: "'fs platform \<Rightarrow> globals \<Rightarrow> normalized_path \<Rightarrow> normalized_path" where
  "VirtualizePath P G np =
     (if in_package P G np then np
      else VirtualizePath_loop P G (rev (g_vfsFolderMappings G)) np)"

subsection \<open>The redirected path\<close>

lemma find_first_of_bounds:
  "find_first_of s cs pos = Some n \<Longrightarrow> pos \<le> n \<and> n < length s"
  by (induction s cs pos arbitrary: n rule: find_first_of.induct) (auto split: if_splits)

text \<open>The loop of \<^verbatim>\<open>GenerateRedirectedPath\<close> when the directory structure is to be ensured:
  the directory built so far is created, then the next component is appended. \<open>None\<close> is
  \<^verbatim>\<open>npos\<close>; the source's test of \<^verbatim>\<open>nextPos\<close> against the length is kept as it is.\<close>

function GenerateRedirectedPath_loop ::
  "'fs platform \<Rightarrow> string \<Rightarrow> nat \<Rightarrow> string \<Rightarrow> 'fs \<Rightarrow> string \<times> 'fs" where
  "GenerateRedirectedPath_loop P relativePath pos result fs =
     (if pos < length relativePath
      then (let fs1 = snd (impl_CreateDirectory P result fs);
                nextPos0 = find_first_of relativePath {bs, CHR ''/''} (pos + 1);
                nextPos = (if nextPos0 = Some (length relativePath) then None else nextPos0)
            in case nextPos of
                 None \<Rightarrow> (result @ drop pos relativePath, fs1)
               | Some n \<Rightarrow>
                   GenerateRedirectedPath_loop P relativePath n
                     (result @ take (n - pos) (drop pos relativePath)) fs1)
      else (result, fs))"
  by pat_completeness auto
termination
proof (relation "measure (\<lambda>(P, relativePath, pos, result, fs). length relativePath - pos)")
  show "wf (measure (\<lambda>(P, relativePath, pos, result, fs). length relativePath - pos))"
    by simp
next
  fix P :: "'fs platform" and relativePath :: string and pos :: nat and result :: string
    and fs fs1 :: 'fs and nextPos0 nextPos :: "nat option" and n :: nat
  assume "pos < length relativePath"
    and "nextPos0 = find_first_of relativePath {bs, CHR ''/''} (pos + 1)"
    and "nextPos = (if nextPos0 = Some (length relativePath) then None else nextPos0)"
    and "nextPos = Some n"
  then have "find_first_of relativePath {bs, CHR ''/''} (pos + 1) = Some n"
    by (simp split: if_splits)
  then have "pos + 1 \<le> n \<and> n < length relativePath"
    by (rule find_first_of_bounds)
  then show "((P, relativePath, n, result @ take (n - pos) (drop pos relativePath), fs1),
              (P, relativePath, pos, result, fs))
             \<in> measure (\<lambda>(P, relativePath, pos, result, fs). length relativePath - pos)"
    by (simp, arith)
qed

declare GenerateRedirectedPath_loop.simps [simp del]

definition GenerateRedirectedPath ::
  "'fs platform \<Rightarrow> string \<Rightarrow> bool \<Rightarrow> string \<Rightarrow> 'fs \<Rightarrow> string \<times> 'fs" where
  "GenerateRedirectedPath P relativePath ensureDirectoryStructure result fs =
     (if ensureDirectoryStructure
      then GenerateRedirectedPath_loop P relativePath 0 result fs
      else (result @ relativePath, fs))"

text \<open>\<^verbatim>\<open>s.substr(pos)\<close> throws \<^verbatim>\<open>std::out_of_range\<close> when \<open>pos\<close> is beyond the length.\<close>

definition wstring_substr :: "string \<Rightarrow> nat \<Rightarrow> error + string" where
  "wstring_substr s pos = (if pos > length s then Inl out_of_range else Inr (drop pos s))"

text \<open>\<^verbatim>\<open>RedirectedPath\<close>, first part: the destination root \<^verbatim>\<open>basePath\<close>.\<close>

definition RedirectedPath_basePath :: "'fs platform \<Rightarrow> globals \<Rightarrow> string \<Rightarrow> string" where
  "RedirectedPath_basePath P G destinationTargetBase =
     (if wcsicmp_eq destinationTargetBase (g_writablePackageRootPath G)
      then [bs, bs, CHR ''?'', bs] @ g_writablePackageRootPath G
      else [bs, bs, CHR ''?'', bs] @ psf_remove_trailing_path_separators P destinationTargetBase)"

text \<open>
  \<^verbatim>\<open>RedirectedPath\<close>, second part: \<^verbatim>\<open>relativePath\<close>. The first branch is the case
  "target in package", the second the case "target not in package". There the source reads
  \<^verbatim>\<open>drive_absolute_path[0]\<close> and the characters from index 2 on: a null pointer or a string
  shorter than two characters is a fault.
\<close>

definition RedirectedPath_relativePath ::
  "'fs platform \<Rightarrow> globals \<Rightarrow> normalized_path \<Rightarrow> string \<Rightarrow> error + string" where
  "RedirectedPath_relativePath P G deVirtualizedPath destinationTargetBase =
     (let deVirtualizedFullPath = map towlower (full_path deVirtualizedPath)
      in if wstring_find deVirtualizedFullPath (g_packageRootPath G) \<noteq> None
         then (let lengthPackageRootPath =
                     (if psf_path_type P deVirtualizedFullPath = drive_absolute
                      then length (g_packageRootPath G)
                      else length (g_finalPackageRootPath G))
               in if wcsicmp_eq destinationTargetBase (g_writablePackageRootPath G)
                  then wstring_substr (full_path deVirtualizedPath) lengthPackageRootPath
                  else (case wstring_substr (full_path deVirtualizedPath) lengthPackageRootPath of
                          Inl e \<Rightarrow> Inl e
                        | Inr tail \<Rightarrow>
                            Inr (bs # ''PackageCache'' @ [bs]
                                 @ psf_current_package_family_name P @ tail)))
         else (let relativePath =
                     (if wcsicmp_eq destinationTargetBase (g_redirectRootPath G)
                      then [bs]
                      else bs # ''PackageCache'' @ [bs] @ psf_current_package_family_name P
                           @ bs # ''VFS'' @ bs # ''PackageDrive'')
               in case drive_absolute_path deVirtualizedPath of
                    None \<Rightarrow> Inl access_violation
                  | Some dap \<Rightarrow>
                      if length dap < 2 then Inl access_violation
                      else Inr (relativePath @ [bs, hd dap, CHR ''$''] @ drop 2 dap)))"

definition RedirectedPath ::
  "'fs platform \<Rightarrow> globals \<Rightarrow> normalized_path \<Rightarrow> bool \<Rightarrow> string \<Rightarrow> 'fs \<Rightarrow> (error + string) \<times> 'fs" where
  "RedirectedPath P G deVirtualizedPath ensureDirectoryStructure destinationTargetBase fs =
     (let basePath = RedirectedPath_basePath P G destinationTargetBase
      in case RedirectedPath_relativePath P G deVirtualizedPath destinationTargetBase of
           Inl e \<Rightarrow> (Inl e, fs)
         | Inr relativePath \<Rightarrow>
             if impl_PathExists P fs (basePath @ relativePath)
             then (Inr (basePath @ relativePath), fs)
             else (case GenerateRedirectedPath P relativePath ensureDirectoryStructure basePath fs of
                     (result, fs') \<Rightarrow> (Inr result, fs')))"

subsection \<open>The redirect decision\<close>

definition no_redirect :: path_redirect_info where
  "no_redirect = \<lparr>should_redirect = False, redirect_path = [], shouldReadonly = False\<rparr>"

text \<open>
  The loop of \<^verbatim>\<open>ShouldRedirectImpl\<close> over \<^verbatim>\<open>g_redirectionSpecs\<close>, started with the default
  \<open>result\<close>. \<open>vfspath\<close> is the virtualised path and \<open>vdap\<close> its drive-absolute string.
  \<open>relativePath'\<close> is \<open>None\<close> where the source says \<^verbatim>\<open>continue\<close>.
\<close>

fun ShouldRedirect_loop ::
  "'fs platform \<Rightarrow> globals \<Rightarrow> redirect_flags set \<Rightarrow> normalized_path \<Rightarrow> string
   \<Rightarrow> path_redirection_spec list \<Rightarrow> 'fs \<Rightarrow> (error + path_redirect_info) \<times> 'fs" where
  "ShouldRedirect_loop P G flags vfspath vdap [] fs = (Inr no_redirect, fs)"
| "ShouldRedirect_loop P G flags vfspath vdap (redirectSpec # specs) fs =
     (if path_relative_to P vdap (base_path redirectSpec)
      then (let relativePath = drop (length (base_path redirectSpec)) vdap;
                relativePath' =
                  (if relativePath \<noteq> [] \<and> psf_is_path_separator P (hd relativePath)
                   then Some (tl relativePath)
                   else if relativePath \<noteq> [] then None
                   else Some relativePath)
            in case relativePath' of
                 None \<Rightarrow> ShouldRedirect_loop P G flags vfspath vdap specs fs
               | Some rel \<Rightarrow>
                   if pattern redirectSpec rel
                   then (if isExclusion redirectSpec
                         then (Inr (no_redirect\<lparr>should_redirect := False\<rparr>), fs)
                         else (let destinationTargetBase = redirect_targetbase redirectSpec;
                                   ensure = flag_set flags ensure_directory_structure;
                                   r = (if impl_PathExists P fs vdap
                                        then RedirectedPath P G vfspath ensure destinationTargetBase fs
                                        else RedirectedPath P G vfspath ensure destinationTargetBase fs)
                               in case r of
                                    (Inl e, fs') \<Rightarrow> (Inl e, fs')
                                  | (Inr redirected, fs') \<Rightarrow>
                                      (Inr \<lparr>should_redirect = True, redirect_path = redirected,
                                            shouldReadonly = isReadOnly redirectSpec\<rparr>, fs')))
                   else ShouldRedirect_loop P G flags vfspath vdap specs fs)
      else ShouldRedirect_loop P G flags vfspath vdap specs fs)"

definition FILE_ATTRIBUTE_DIRECTORY :: "32 word" where
  "FILE_ATTRIBUTE_DIRECTORY = 0x10"

definition COPY_FILE_FAIL_IF_EXISTS :: "32 word" where
  "COPY_FILE_FAIL_IF_EXISTS = 0x1"

definition COPY_FILE_NO_BUFFERING :: "32 word" where
  "COPY_FILE_NO_BUFFERING = 0x1000"

text \<open>The block of \<^verbatim>\<open>ShouldRedirectImpl\<close> under \<^verbatim>\<open>redirect_flags::copy_file\<close>. The outcome
  of the copy goes to the log only.\<close>

definition ShouldRedirect_copy ::
  "'fs platform \<Rightarrow> string \<Rightarrow> string \<Rightarrow> string \<Rightarrow> 'fs \<Rightarrow> 'fs" where
  "ShouldRedirect_copy P redirected vdap ndap fs =
     (if impl_PathExists P fs redirected then fs
      else (let CopySource = (if impl_PathExists P fs vdap then vdap else ndap);
                attr = impl_GetFileAttributes P fs CopySource
            in if attr AND FILE_ATTRIBUTE_DIRECTORY \<noteq> FILE_ATTRIBUTE_DIRECTORY
               then snd (impl_CopyFileEx P CopySource redirected
                           (COPY_FILE_FAIL_IF_EXISTS OR COPY_FILE_NO_BUFFERING) fs)
               else snd (impl_CreateDirectoryEx P CopySource redirected fs)))"

text \<open>What follows the loop: the presence check and the copy.\<close>

definition ShouldRedirect_finish ::
  "'fs platform \<Rightarrow> redirect_flags set \<Rightarrow> string \<Rightarrow> string \<Rightarrow> path_redirect_info \<Rightarrow> 'fs
   \<Rightarrow> (error + path_redirect_info) \<times> 'fs" where
  "ShouldRedirect_finish P flags vdap ndap result fs =
     (if \<not> should_redirect result then (Inr result, fs)
      else if flag_set flags check_file_presence
              \<and> \<not> impl_PathExists P fs (redirect_path result)
              \<and> \<not> impl_PathExists P fs vdap
              \<and> \<not> impl_PathExists P fs ndap
      then (Inr (result\<lparr>should_redirect := False, redirect_path := []\<rparr>), fs)
      else if flag_set flags copy_file
      then (Inr result, ShouldRedirect_copy P (redirect_path result) vdap ndap fs)
      else (Inr result, fs))"

definition ShouldRedirectImpl ::
  "'fs platform \<Rightarrow> globals \<Rightarrow> string option \<Rightarrow> redirect_flags set \<Rightarrow> 'fs
   \<Rightarrow> (error + path_redirect_info) \<times> 'fs" where
  "ShouldRedirectImpl P G p flags fs =
     (case p of
        None \<Rightarrow> (Inr no_redirect, fs)
      | Some s \<Rightarrow>
          (let normalizedPath = NormalizePath P (Some s)
           in case drive_absolute_path normalizedPath of
                None \<Rightarrow> (Inr no_redirect, fs)
              | Some _ \<Rightarrow>
                  (let normalizedPath = DeVirtualizePath P G normalizedPath;
                       vfspath = VirtualizePath P G (NormalizePath P (Some s))
                   in case (drive_absolute_path vfspath, drive_absolute_path normalizedPath) of
                        (Some vdap, Some ndap) \<Rightarrow>
                          (case ShouldRedirect_loop P G flags vfspath vdap (g_redirectionSpecs G) fs of
                             (Inl e, fs') \<Rightarrow> (Inl e, fs')
                           | (Inr result, fs') \<Rightarrow> ShouldRedirect_finish P flags vdap ndap result fs')
                      | _ \<Rightarrow> (Inl access_violation, fs))))"

definition ShouldRedirect ::
  "'fs platform \<Rightarrow> globals \<Rightarrow> string option \<Rightarrow> redirect_flags set \<Rightarrow> 'fs
   \<Rightarrow> (error + path_redirect_info) \<times> 'fs" where
  "ShouldRedirect P G p flags fs = ShouldRedirectImpl P G p flags fs"

subsection \<open>A sample platform and configuration\<close>

text \<open>
  Concrete values for the parameters, to run the functions on inputs. The helpers follow the
  DOS path grammar: both slashes separate, comparison ignores case and the kind of slash,
  \<open>sample_path_type\<close> classifies by the leading characters. \<open>sample_full_path\<close> resolves a
  relative path against the current directory \<^verbatim>\<open>D:\Users\me\<close> and returns any other path as it is;
  it is applied to paths without dot segments only. The file system is a list of the paths
  that exist, each with the flag "is a directory".

  \<open>win\<close> writes a backslash for every bar, for legible literals.
\<close>

definition win :: "string \<Rightarrow> string" where
  "win s = map (\<lambda>c. if c = CHR ''|'' then bs else c) s"

definition sample_path_type :: "string \<Rightarrow> dos_path_type" where
  "sample_path_type s =
     (if take 4 s = [bs, bs, CHR ''?'', bs] then root_local_device
      else if take 4 s = [bs, bs, CHR ''.'', bs] then local_device
      else if take 2 s = [bs, bs] then unc_absolute
      else if has_drive_letter_prefix s
      then (if length s > 2 \<and> is_slash (s ! 2) then drive_absolute else drive_relative)
      else if s \<noteq> [] \<and> is_slash (hd s) then rooted
      else relative)"

definition sample_full_path :: "string \<Rightarrow> string" where
  "sample_full_path s =
     (if s = ''.'' then win ''D:|Users|me''
      else if sample_path_type s = relative then win ''D:|Users|me|'' @ s
      else s)"

definition hex_digit :: "char \<Rightarrow> nat option" where
  "hex_digit c =
     map_of (zip ''0123456789abcdefABCDEF''
               [0, 1, 2, 3, 4, 5, 6, 7, 8, 9, 10, 11, 12, 13, 14, 15, 10, 11, 12, 13, 14, 15]) c"

definition sample_sscanf_x :: "string \<Rightarrow> 32 word option" where
  "sample_sscanf_x s =
     (case s of
        [] \<Rightarrow> None
      | a # r \<Rightarrow>
          (case hex_digit a of
             None \<Rightarrow> None
           | Some x \<Rightarrow>
               (case r of
                  [] \<Rightarrow> Some (of_nat x)
                | b # _ \<Rightarrow>
                    (case hex_digit b of
                       None \<Rightarrow> Some (of_nat x)
                     | Some y \<Rightarrow> Some (of_nat (16 * x + y))))))"

type_synonym sample_fs = "(string \<times> bool) list"

definition sample_platform :: "sample_fs platform" where
  "sample_platform =
     \<lparr>psf_is_path_separator = is_slash,
      psf_path_compare = (\<lambda>a b. towlower a = towlower b \<or> (is_slash a \<and> is_slash b)),
      psf_path_type = sample_path_type,
      psf_full_path = sample_full_path,
      psf_remove_trailing_path_separators = (\<lambda>s. rev (dropWhile is_slash (rev s))),
      psf_current_package_family_name = ''Fam'',
      crt_sscanf_x = sample_sscanf_x,
      uninitialized_ii = 0,
      impl_PathExists = (\<lambda>fs p. map_of fs p \<noteq> None),
      impl_CreateDirectory =
        (\<lambda>p fs. if map_of fs p = None then (True, (p, True) # fs) else (False, fs)),
      impl_GetFileAttributes =
        (\<lambda>fs p. case map_of fs p of
                   None \<Rightarrow> 0xFFFFFFFF
                 | Some d \<Rightarrow> if d then 0x10 else 0x80),
      impl_CopyFileEx =
        (\<lambda>src dst flags fs.
           if map_of fs src = Some False \<and> (map_of fs dst = None \<or> flags AND 1 = 0)
           then (True, (dst, False) # fs) else (False, fs)),
      impl_CreateDirectoryEx =
        (\<lambda>src dst fs.
           if map_of fs src = Some True \<and> map_of fs dst = None
           then (True, (dst, True) # fs) else (False, fs))\<rparr>"

text \<open>
  Package root \<^verbatim>\<open>c:\p\<close> (lower case, as \<^verbatim>\<open>InitializePaths\<close> leaves it), one VFS folder
  \<^verbatim>\<open>C:\Windows\<close>, and three rules: under the package's \<^verbatim>\<open>VFS\Windows\<close> an exclusion of the
  names ending in \<^verbatim>\<open>.tmp\<close> before an inclusion of every name, and under \<^verbatim>\<open>D:\Users\<close> an
  inclusion of every name with the redirect root as its target.
\<close>

definition sample_exclusion :: path_redirection_spec where
  "sample_exclusion =
     \<lparr>base_path = win ''c:|p|VFS|Windows'',
      pattern = (\<lambda>s. drop (length s - 4) s = ''.tmp''),
      redirect_targetbase = win ''C:|L|W'', isExclusion = True, isReadOnly = False\<rparr>"

definition sample_inclusion :: path_redirection_spec where
  "sample_inclusion =
     \<lparr>base_path = win ''c:|p|VFS|Windows'',
      pattern = (\<lambda>s. True),
      redirect_targetbase = win ''C:|L|W'', isExclusion = False, isReadOnly = True\<rparr>"

definition sample_users :: path_redirection_spec where
  "sample_users =
     \<lparr>base_path = win ''D:|Users'',
      pattern = (\<lambda>s. True),
      redirect_targetbase = win ''C:|L|VFS'', isExclusion = False, isReadOnly = False\<rparr>"

definition sample_globals :: globals where
  "sample_globals =
     \<lparr>g_packageRootPath = win ''c:|p'',
      g_packageVfsRootPath = win ''c:|p|VFS'',
      g_redirectRootPath = win ''C:|L|VFS'',
      g_writablePackageRootPath = win ''C:|L|W'',
      g_finalPackageRootPath = win ''||?|C:|p'',
      g_vfsFolderMappings = [\<lparr>path = win ''C:|Windows'', package_vfs_relative_path = ''Windows''\<rparr>],
      g_redirectionSpecs = [sample_exclusion, sample_inclusion, sample_users]\<rparr>"

text \<open>A path under the VFS folder, and its virtualised form.\<close>

definition sample_path :: string where
  "sample_path = win ''C:|Windows|a.ini''"

definition sample_vfspath :: normalized_path where
  "sample_vfspath = \<lparr>full_path = win ''c:|p|VFS|Windows|a.ini'',
                      drive_absolute_path = Some (win ''c:|p|VFS|Windows|a.ini'')\<rparr>"


text \<open>
  The sample configuration with one rule, on the drive of the package, as a
  \<^verbatim>\<open>packageDriveRelative\<close> entry with an empty base gives it: every name on drive \<^verbatim>\<open>c:\<close>, with
  the writable package root as its target.
\<close>

definition sample_drive_rule :: path_redirection_spec where
  "sample_drive_rule =
     \<lparr>base_path = ''c:'',
      pattern = (\<lambda>s. True),
      redirect_targetbase = win ''C:|L|W'', isExclusion = False, isReadOnly = False\<rparr>"

definition sample_drive_globals :: globals where
  "sample_drive_globals = sample_globals\<lparr>g_redirectionSpecs := [sample_drive_rule]\<rparr>"

subsection \<open>The rule a path falls under\<close>

text \<open>
  The matching of the specification, stated on lists rather than by the loop's pointer
  steps. A rule applies to a path when its base path is a prefix of the path under
  \<^verbatim>\<open>psf::path_compare\<close>, the prefix ends at a directory boundary (the path ends there, or a
  separator follows), and the pattern matches the whole remainder behind that separator.
\<close>

definition rule_applies :: "'fs platform \<Rightarrow> string \<Rightarrow> path_redirection_spec \<Rightarrow> bool" where
  "rule_applies P vdap spec =
     (let n = length (base_path spec)
      in n \<le> length vdap
         \<and> list_all2 (psf_path_compare P) (base_path spec) (take n vdap)
         \<and> (case drop n vdap of
               [] \<Rightarrow> pattern spec []
             | c # remainder \<Rightarrow> psf_is_path_separator P c \<and> pattern spec remainder))"

subsection \<open>Well-formed VFS tables and remainders\<close>



section \<open>Properties\<close>

subsection \<open>Helper lemmas\<close>

lemma NormalizePath_passthrough:
  assumes "IsColonColonGuid s \<or> IsBlobColon s"
  shows "NormalizePath P (Some s) = \<lparr>full_path = s, drive_absolute_path = None\<rparr>"
proof -
  from assms have "s \<noteq> []"
    by (auto simp: IsColonColonGuid_def IsBlobColon_def find_at_0_def split: if_splits)
  with assms show ?thesis
    by (auto simp: NormalizePath_def)
qed

lemma std_equal_iff:
  "std_equal cmp base p \<longleftrightarrow> length base \<le> length p \<and> list_all2 cmp base (take (length base) p)"
  by (induction cmp base p rule: std_equal.induct) auto

lemma ShouldRedirect_loop_find:
  "ShouldRedirect_loop P G flags vfspath vdap specs fs
     = (case List.find (rule_applies P vdap) specs of
          None \<Rightarrow> (Inr no_redirect, fs)
        | Some spec \<Rightarrow>
            if isExclusion spec then (Inr no_redirect, fs)
            else (case RedirectedPath P G vfspath (flag_set flags ensure_directory_structure)
                         (redirect_targetbase spec) fs of
                    (Inl e, fs') \<Rightarrow> (Inl e, fs')
                  | (Inr dest, fs') \<Rightarrow>
                      (Inr \<lparr>should_redirect = True, redirect_path = dest,
                            shouldReadonly = isReadOnly spec\<rparr>, fs')))"
proof (induction specs)
  case Nil
  show ?case by simp
next
  case (Cons spec specs)
  show ?case
  proof (cases "rule_applies P vdap spec")
    case True
    then show ?thesis
      by (auto simp: rule_applies_def path_relative_to_def std_equal_iff Let_def
          no_redirect_def split: list.splits prod.splits sum.splits)
  next
    case False
    then have "ShouldRedirect_loop P G flags vfspath vdap (spec # specs) fs
               = ShouldRedirect_loop P G flags vfspath vdap specs fs"
      by (auto simp: rule_applies_def path_relative_to_def std_equal_iff Let_def
          split: list.splits)
    with False Cons show ?thesis by simp
  qed
qed

lemma GenerateRedirectedPath_loop_fst:
  "fst (GenerateRedirectedPath_loop P relativePath pos result fs) = result @ drop pos relativePath"
proof (induction P relativePath pos result fs rule: GenerateRedirectedPath_loop.induct)
  case (1 P relativePath pos result fs)
  show ?case
  proof (cases "pos < length relativePath")
    case False
    then show ?thesis
      by (subst GenerateRedirectedPath_loop.simps) simp
  next
    case True
    define nextPos0 where "nextPos0 = find_first_of relativePath {bs, CHR ''/''} (pos + 1)"
    define nextPos where
      "nextPos = (if nextPos0 = Some (length relativePath) then None else nextPos0)"
    define fs1 where "fs1 = snd (impl_CreateDirectory P result fs)"
    have step: "GenerateRedirectedPath_loop P relativePath pos result fs
                = (case nextPos of
                     None \<Rightarrow> (result @ drop pos relativePath, fs1)
                   | Some n \<Rightarrow>
                       GenerateRedirectedPath_loop P relativePath n
                         (result @ take (n - pos) (drop pos relativePath)) fs1)"
      unfolding nextPos_def nextPos0_def fs1_def using True
      by (subst GenerateRedirectedPath_loop.simps) (simp add: Let_def)
    show ?thesis
    proof (cases nextPos)
      case None
      then show ?thesis by (simp add: step)
    next
      case (Some n)
      then have "find_first_of relativePath {bs, CHR ''/''} (pos + 1) = Some n"
        by (simp add: nextPos_def nextPos0_def split: if_splits)
      then have b: "pos + 1 \<le> n \<and> n < length relativePath"
        by (rule find_first_of_bounds)
      have ih: "fst (GenerateRedirectedPath_loop P relativePath n
                   (result @ take (n - pos) (drop pos relativePath)) fs1)
                = (result @ take (n - pos) (drop pos relativePath)) @ drop n relativePath"
        using "1.IH" [OF True fs1_def nextPos0_def nextPos_def Some] .
      from b have "drop n relativePath = drop (n - pos) (drop pos relativePath)"
        by simp
      then have "take (n - pos) (drop pos relativePath) @ drop n relativePath
                 = drop pos relativePath"
        by (simp only: append_take_drop_id)
      with ih have "fst (GenerateRedirectedPath_loop P relativePath n
                   (result @ take (n - pos) (drop pos relativePath)) fs1)
                = result @ drop pos relativePath"
        by simp
      with Some show ?thesis by (simp add: step)
    qed
  qed
qed

lemma GenerateRedirectedPath_fst:
  "fst (GenerateRedirectedPath P relativePath ensure result fs) = result @ relativePath"
  by (simp add: GenerateRedirectedPath_def GenerateRedirectedPath_loop_fst)

lemma RedirectedPath_fst:
  "fst (RedirectedPath P G np ensure target fs)
     = (case RedirectedPath_relativePath P G np target of
          Inl e \<Rightarrow> Inl e
        | Inr relativePath \<Rightarrow> Inr (RedirectedPath_basePath P G target @ relativePath))"
proof (cases "RedirectedPath_relativePath P G np target")
  case (Inl e)
  then show ?thesis by (simp add: RedirectedPath_def)
next
  case (Inr rel)
  have "fst (GenerateRedirectedPath P rel ensure (RedirectedPath_basePath P G target) fs)
        = RedirectedPath_basePath P G target @ rel"
    by (rule GenerateRedirectedPath_fst)
  with Inr show ?thesis
    by (auto simp: RedirectedPath_def Let_def split: prod.splits)
qed

lemma ShouldRedirectImpl_inclusion:
  assumes np: "NormalizePath P (Some s) = np"
    and d: "drive_absolute_path np = Some d"
    and nd: "drive_absolute_path (DeVirtualizePath P G np) = Some ndap"
    and vd: "drive_absolute_path (VirtualizePath P G np) = Some vdap"
    and win: "List.find (rule_applies P vdap) (g_redirectionSpecs G) = Some spec"
    and incl: "\<not> isExclusion spec"
    and dest: "RedirectedPath P G (VirtualizePath P G np)
                 (flag_set flags ensure_directory_structure) (redirect_targetbase spec) fs
               = (Inr dest, fs1)"
  shows "ShouldRedirect P G (Some s) flags fs
         = ShouldRedirect_finish P flags vdap ndap
             \<lparr>should_redirect = True, redirect_path = dest, shouldReadonly = isReadOnly spec\<rparr> fs1"
proof -
  have "ShouldRedirect_loop P G flags (VirtualizePath P G np) vdap (g_redirectionSpecs G) fs
        = (Inr \<lparr>should_redirect = True, redirect_path = dest,
                shouldReadonly = isReadOnly spec\<rparr>, fs1)"
    using win incl dest by (simp add: ShouldRedirect_loop_find)
  with np d nd vd show ?thesis
    by (simp add: ShouldRedirect_def ShouldRedirectImpl_def Let_def)
qed

lemma wstring_find_None_iff:
  "wstring_find s sub = None \<longleftrightarrow> \<not> (\<exists>pre suf. s = pre @ sub @ suf)"
proof (induction s)
  case Nil
  show ?case by auto
next
  case (Cons c cs)
  have "(\<exists>pre suf. c # cs = pre @ sub @ suf)
        \<longleftrightarrow> take (length sub) (c # cs) = sub \<or> (\<exists>pre suf. cs = pre @ sub @ suf)"
  proof
    assume "\<exists>pre suf. c # cs = pre @ sub @ suf"
    then obtain pre suf where e: "c # cs = pre @ sub @ suf" by blast
    show "take (length sub) (c # cs) = sub \<or> (\<exists>pre suf. cs = pre @ sub @ suf)"
    proof (cases pre)
      case Nil
      with e have "take (length sub) (c # cs) = sub" by simp
      then show ?thesis ..
    next
      case (Cons a pre')
      with e have "cs = pre' @ sub @ suf" by simp
      then show ?thesis by blast
    qed
  next
    assume "take (length sub) (c # cs) = sub \<or> (\<exists>pre suf. cs = pre @ sub @ suf)"
    then show "\<exists>pre suf. c # cs = pre @ sub @ suf"
    proof
      assume "take (length sub) (c # cs) = sub"
      then have "c # cs = [] @ sub @ drop (length sub) (c # cs)"
        by (metis append_Nil append_take_drop_id)
      then show ?thesis by blast
    next
      assume "\<exists>pre suf. cs = pre @ sub @ suf"
      then obtain pre suf where "cs = pre @ sub @ suf" by blast
      then have "c # cs = (c # pre) @ sub @ suf" by simp
      then show ?thesis by blast
    qed
  qed
  with Cons show ?case by auto
qed

lemma RedirectedPath_relativePath_in_package:
  assumes "map towlower (full_path np) = pre @ g_packageRootPath G @ suf"
  shows "RedirectedPath_relativePath P G np target
         = (let n = (if psf_path_type P (map towlower (full_path np)) = drive_absolute
                     then length (g_packageRootPath G) else length (g_finalPackageRootPath G))
            in if length (full_path np) < n then Inl out_of_range
               else Inr ((if wcsicmp_eq target (g_writablePackageRootPath G) then []
                          else bs # ''PackageCache'' @ [bs] @ psf_current_package_family_name P)
                         @ drop n (full_path np)))"
proof -
  from assms have "wstring_find (map towlower (full_path np)) (g_packageRootPath G) \<noteq> None"
    unfolding wstring_find_None_iff by blast
  then show ?thesis
    by (simp add: RedirectedPath_relativePath_def Let_def wstring_substr_def)
qed

lemma RedirectedPath_relativePath_outside:
  assumes "\<not> (\<exists>pre suf. map towlower (full_path np) = pre @ g_packageRootPath G @ suf)"
  shows "RedirectedPath_relativePath P G np target
         = (case drive_absolute_path np of
              None \<Rightarrow> Inl access_violation
            | Some dap \<Rightarrow>
                if length dap < 2 then Inl access_violation
                else Inr ((if wcsicmp_eq target (g_redirectRootPath G) then [bs]
                           else bs # ''PackageCache'' @ [bs] @ psf_current_package_family_name P
                                @ bs # ''VFS'' @ bs # ''PackageDrive'')
                          @ [bs, hd dap, CHR ''$''] @ drop 2 dap))"
proof -
  from assms have "wstring_find (map towlower (full_path np)) (g_packageRootPath G) = None"
    unfolding wstring_find_None_iff .
  then show ?thesis
    by (simp add: RedirectedPath_relativePath_def Let_def)
qed

text \<open>The sample path through the stages of \<open>ShouldRedirectImpl\<close>.\<close>

lemma sample_normalize:
  "NormalizePath sample_platform (Some sample_path)
   = \<lparr>full_path = sample_path, drive_absolute_path = Some sample_path\<rparr>"
  by code_simp

lemma sample_devirtualize:
  "DeVirtualizePath sample_platform sample_globals
     \<lparr>full_path = sample_path, drive_absolute_path = Some sample_path\<rparr>
   = \<lparr>full_path = sample_path, drive_absolute_path = Some sample_path\<rparr>"
  by code_simp

lemma sample_virtualize:
  "VirtualizePath sample_platform sample_globals
     \<lparr>full_path = sample_path, drive_absolute_path = Some sample_path\<rparr>
   = sample_vfspath"
  by code_simp

lemma sample_find:
  "List.find (rule_applies sample_platform (win ''c:|p|VFS|Windows|a.ini''))
     (g_redirectionSpecs sample_globals)
   = Some sample_inclusion"
  by (simp add: sample_globals_def sample_exclusion_def sample_inclusion_def rule_applies_def
      sample_platform_def win_def bs_def towlower_def is_slash_def)

lemma sample_redirected:
  "RedirectedPath sample_platform sample_globals sample_vfspath False (win ''C:|L|W'') fs
   = (Inr (win ''||?|C:|L|W|VFS|Windows|a.ini''), fs)"
  by (cases "impl_PathExists sample_platform fs (win ''||?|C:|L|W|VFS|Windows|a.ini'')")
     (simp_all add: RedirectedPath_def RedirectedPath_basePath_def RedirectedPath_relativePath_def
      GenerateRedirectedPath_def wstring_substr_def wcsicmp_eq_def sample_vfspath_def
      sample_globals_def sample_platform_def sample_path_type_def has_drive_letter_prefix_def
      win_def bs_def towlower_def is_slash_def)

lemma sample_devirtualize_dap:
  "drive_absolute_path (DeVirtualizePath sample_platform sample_globals
     \<lparr>full_path = sample_path, drive_absolute_path = Some sample_path\<rparr>) = Some sample_path"
  by (simp add: sample_devirtualize)

lemma sample_virtualize_dap:
  "drive_absolute_path (VirtualizePath sample_platform sample_globals
     \<lparr>full_path = sample_path, drive_absolute_path = Some sample_path\<rparr>)
   = Some (win ''c:|p|VFS|Windows|a.ini'')"
  by (simp add: sample_virtualize sample_vfspath_def)

lemma sample_redirected_inclusion:
  "RedirectedPath sample_platform sample_globals
     (VirtualizePath sample_platform sample_globals
        \<lparr>full_path = sample_path, drive_absolute_path = Some sample_path\<rparr>)
     False (redirect_targetbase sample_inclusion) fs
   = (Inr (win ''||?|C:|L|W|VFS|Windows|a.ini''), fs)"
proof -
  have tb: "redirect_targetbase sample_inclusion = win ''C:|L|W''"
    by (simp add: sample_inclusion_def)
  show ?thesis
    unfolding sample_virtualize tb by (rule sample_redirected)
qed

lemma sample_inclusion_flags:
  "\<not> isExclusion sample_inclusion" "isReadOnly sample_inclusion = True"
  by (simp_all add: sample_inclusion_def)

lemma UrlDecode_loop_no_percent:
  "CHR ''%'' \<notin> set str \<Longrightarrow> UrlDecode_loop scan ii str = str"
  by (induction str) auto

lemma full_path_set_drive_absolute:
  "full_path (set_drive_absolute P r t)
   = (if t = drive_absolute \<or> t = local_device \<or> t = root_local_device \<or> t = unc_absolute
      then full_path r else [])"
  by (simp add: set_drive_absolute_def Let_def empty_normalized_path_def)

lemma NormalizePathImpl_idempotent:
  assumes canon: "\<forall>q. psf_full_path P (psf_full_path P q) = psf_full_path P q"
    and ne: "full_path (NormalizePathImpl P p) \<noteq> []"
  shows "NormalizePathImpl P (full_path (NormalizePathImpl P p)) = NormalizePathImpl P p"
proof (cases "psf_path_type P p = root_local_device")
  case True
  then have "full_path (NormalizePathImpl P p) = p"
    by (simp add: NormalizePathImpl_def full_path_set_drive_absolute)
  then show ?thesis by simp
next
  case False
  define f where "f = psf_full_path P p"
  define t where "t = psf_path_type P f"
  from ne False have known: "psf_path_type P p \<noteq> unknown"
    by (auto simp: NormalizePathImpl_def empty_normalized_path_def)
  with False have first: "NormalizePathImpl P p
                          = set_drive_absolute P \<lparr>full_path = f, drive_absolute_path = None\<rparr> t"
    by (simp add: NormalizePathImpl_def f_def t_def Let_def)
  with ne have t: "t = drive_absolute \<or> t = local_device \<or> t = root_local_device \<or> t = unc_absolute"
    by (auto simp: full_path_set_drive_absolute split: if_splits)
  with first have ff: "full_path (NormalizePathImpl P p) = f"
    by (auto simp: full_path_set_drive_absolute)
  from canon have c: "psf_full_path P f = f"
    by (simp add: f_def)
  from t have "NormalizePathImpl P f
        = set_drive_absolute P \<lparr>full_path = f, drive_absolute_path = None\<rparr> t"
    using c by (auto simp: NormalizePathImpl_def t_def Let_def)
  with first ff show ?thesis by simp
qed

lemma sample_full_path_idempotent:
  "sample_full_path (sample_full_path q) = sample_full_path q"
  by (simp add: sample_full_path_def sample_path_type_def has_drive_letter_prefix_def
      win_def bs_def is_slash_def towlower_def)
















subsection \<open>Rule matching\<close>

text \<open>
  Claim C1. For every path and every rule list, the loop of \<open>ShouldRedirectImpl\<close> is decided
  by the first rule, in list order, that applies to the drive-absolute string of the
  virtualised path: whose base path is a prefix of it at a directory boundary and whose
  pattern matches the entire remainder behind the boundary separator (\<open>pattern\<close> stands for
  \<^verbatim>\<open>std::regex_match\<close>, which matches whole strings). Later rules are not looked at. No
  such rule, or an exclusion: "no redirect", and the file system is as before. An inclusion:
  "redirect", with the destination computed from the rule's \<open>redirect_targetbase\<close> and with
  the rule's read-only flag; an exception of \<open>RedirectedPath\<close> is passed on.
\<close>

theorem first_matching_rule_decides:
  "ShouldRedirect_loop P G flags vfspath vdap specs fs
     = (case List.find (rule_applies P vdap) specs of
          None \<Rightarrow> (Inr no_redirect, fs)
        | Some spec \<Rightarrow>
            if isExclusion spec then (Inr no_redirect, fs)
            else (case RedirectedPath P G vfspath (flag_set flags ensure_directory_structure)
                         (redirect_targetbase spec) fs of
                    (Inl e, fs') \<Rightarrow> (Inl e, fs')
                  | (Inr dest, fs') \<Rightarrow>
                      (Inr \<lparr>should_redirect = True, redirect_path = dest,
                            shouldReadonly = isReadOnly spec\<rparr>, fs')))"
  by (rule ShouldRedirect_loop_find)

text \<open>On the sample configuration: \<^verbatim>\<open>a.tmp\<close> falls under the exclusion that comes first,
  \<^verbatim>\<open>a.ini\<close> under the inclusion behind it, and the base \<^verbatim>\<open>C:\Foo\<close> does not match
  \<^verbatim>\<open>C:\Foobar\x\<close>.\<close>

theorem first_matching_rule_decides_witness:
  "ShouldRedirect_loop sample_platform sample_globals {}
     \<lparr>full_path = win ''c:|p|VFS|Windows|a.tmp'',
      drive_absolute_path = Some (win ''c:|p|VFS|Windows|a.tmp'')\<rparr>
     (win ''c:|p|VFS|Windows|a.tmp'') (g_redirectionSpecs sample_globals) []
     = (Inr no_redirect, [])
   \<and> ShouldRedirect_loop sample_platform sample_globals {}
     \<lparr>full_path = win ''c:|p|VFS|Windows|a.ini'',
      drive_absolute_path = Some (win ''c:|p|VFS|Windows|a.ini'')\<rparr>
     (win ''c:|p|VFS|Windows|a.ini'') (g_redirectionSpecs sample_globals) []
     = (Inr \<lparr>should_redirect = True, redirect_path = win ''||?|C:|L|W|VFS|Windows|a.ini'',
            shouldReadonly = True\<rparr>, [])
   \<and> ShouldRedirect_loop sample_platform sample_globals {}
     \<lparr>full_path = win ''C:|Foobar|x'', drive_absolute_path = Some (win ''C:|Foobar|x'')\<rparr>
     (win ''C:|Foobar|x'')
     [\<lparr>base_path = win ''C:|Foo'', pattern = (\<lambda>s. True), redirect_targetbase = win ''C:|L|W'',
       isExclusion = False, isReadOnly = False\<rparr>] []
     = (Inr no_redirect, [])"
  by (simp only: first_matching_rule_decides) code_simp

subsection \<open>Round trip through the VFS mapping\<close>




subsection \<open>Idempotence of normalisation\<close>

text \<open>
  Claim C3, as amended. Let the operating system's canonicalisation be idempotent. For every
  input whose normal form has a non-empty full path, normalising that full path again gives
  the same normal form, provided the full path holds no percent sign and does not itself begin
  with a \<^verbatim>\<open>file:\<close> prefix, the \<^verbatim>\<open>::{\<close> marker or a \<^verbatim>\<open>blob:\<close> scheme; for an input that was passed
  through as a \<^verbatim>\<open>::{\<close> or \<^verbatim>\<open>blob:\<close> name the proviso is not needed.
\<close>

theorem normalize_idempotent:
  assumes "\<forall>q. psf_full_path P (psf_full_path P q) = psf_full_path P q"
    and "np = NormalizePath P inp"
    and "full_path np \<noteq> []"
    and "(\<exists>s. inp = Some s \<and> (IsColonColonGuid s \<or> IsBlobColon s))
         \<or> (CHR ''%'' \<notin> set (full_path np)
             \<and> \<not> IsColonColonGuid (full_path np) \<and> \<not> IsBlobColon (full_path np)
             \<and> StripFileColonSlash (full_path np) = full_path np)"
  shows "NormalizePath P (Some (full_path np)) = np"
  using assms(4)
proof
  assume "\<exists>s. inp = Some s \<and> (IsColonColonGuid s \<or> IsBlobColon s)"
  then obtain s where s: "inp = Some s" "IsColonColonGuid s \<or> IsBlobColon s" by blast
  then have "np = \<lparr>full_path = s, drive_absolute_path = None\<rparr>"
    using assms(2) by (simp add: NormalizePath_passthrough)
  with s(2) show ?thesis
    by (simp add: NormalizePath_passthrough)
next
  assume a: "CHR ''%'' \<notin> set (full_path np)
             \<and> \<not> IsColonColonGuid (full_path np) \<and> \<not> IsBlobColon (full_path np)
             \<and> StripFileColonSlash (full_path np) = full_path np"
  show ?thesis
  proof (cases "\<exists>s. inp = Some s \<and> (IsColonColonGuid s \<or> IsBlobColon s)")
    case True
    then obtain s where s: "inp = Some s" "IsColonColonGuid s \<or> IsBlobColon s" by blast
    then have "np = \<lparr>full_path = s, drive_absolute_path = None\<rparr>"
      using assms(2) by (simp add: NormalizePath_passthrough)
    with s(2) show ?thesis
      by (simp add: NormalizePath_passthrough)
  next
    case False
    then obtain p where p: "np = NormalizePathImpl P p"
      using assms(2) by (auto simp: NormalizePath_def split: option.splits if_splits)
    from a have "UrlDecode P (full_path np) = full_path np"
      by (simp add: UrlDecode_def UrlDecode_loop_no_percent)
    with a assms(3) have "NormalizePath P (Some (full_path np)) = NormalizePathImpl P (full_path np)"
      by (simp add: NormalizePath_def)
    also have "\<dots> = np"
      using NormalizePathImpl_idempotent [OF assms(1), of p] assms(3) p by simp
    finally show ?thesis .
  qed
qed

text \<open>The witness decodes \<^verbatim>\<open>%20\<close> and strips \<^verbatim>\<open>file:\\<close> in the first pass; the second
  pass finds neither.\<close>

theorem normalize_idempotent_witness:
  "NormalizePath sample_platform
     (Some (full_path (NormalizePath sample_platform (Some (win ''file:|C:|Windows|a%20b.ini'')))))
   = NormalizePath sample_platform (Some (win ''file:|C:|Windows|a%20b.ini''))"
proof -
  have c: "\<forall>q. psf_full_path sample_platform (psf_full_path sample_platform q)
               = psf_full_path sample_platform q"
    by (simp add: sample_platform_def sample_full_path_idempotent)
  have n: "NormalizePath sample_platform (Some (win ''file:|C:|Windows|a%20b.ini''))
           = \<lparr>full_path = win ''C:|Windows|a b.ini'',
              drive_absolute_path = Some (win ''C:|Windows|a b.ini'')\<rparr>"
    by code_simp
  have h: "(\<exists>s. Some (win ''file:|C:|Windows|a%20b.ini'') = Some s
                \<and> (IsColonColonGuid s \<or> IsBlobColon s))
         \<or> (CHR ''%'' \<notin> set (full_path (NormalizePath sample_platform
                                             (Some (win ''file:|C:|Windows|a%20b.ini''))))
             \<and> \<not> IsColonColonGuid (full_path (NormalizePath sample_platform
                                             (Some (win ''file:|C:|Windows|a%20b.ini''))))
             \<and> \<not> IsBlobColon (full_path (NormalizePath sample_platform
                                             (Some (win ''file:|C:|Windows|a%20b.ini''))))
             \<and> StripFileColonSlash (full_path (NormalizePath sample_platform
                                             (Some (win ''file:|C:|Windows|a%20b.ini''))))
                 = full_path (NormalizePath sample_platform
                                             (Some (win ''file:|C:|Windows|a%20b.ini''))))"
    unfolding n
    by (simp add: IsColonColonGuid_def IsBlobColon_def StripFileColonSlash_def find_at_0_def
        win_def bs_def)
  have e: "full_path (NormalizePath sample_platform (Some (win ''file:|C:|Windows|a%20b.ini''))) \<noteq> []"
    unfolding n by (simp add: win_def)
  show ?thesis
    by (rule normalize_idempotent [OF c refl e h])
qed

text \<open>
  The claim as it was stated fails: the second pass decodes again. \<^verbatim>\<open>C:\a%2541\<close> is
  normalised to \<^verbatim>\<open>C:\a%41\<close> (\<^verbatim>\<open>%25\<close> is the percent sign), and that to \<^verbatim>\<open>C:\aA\<close>.
\<close>

theorem normalize_idempotent_counterexample:
  "NormalizePath sample_platform
     (Some (full_path (NormalizePath sample_platform (Some (win ''C:|a%2541'')))))
   \<noteq> NormalizePath sample_platform (Some (win ''C:|a%2541''))
   \<and> NormalizePath sample_platform (Some (win ''C:|a%2541''))
     = \<lparr>full_path = win ''C:|a%41'', drive_absolute_path = Some (win ''C:|a%41'')\<rparr>
   \<and> NormalizePath sample_platform (Some (win ''C:|a%41''))
     = \<lparr>full_path = win ''C:|aA'', drive_absolute_path = Some (win ''C:|aA'')\<rparr>"
  by code_simp

subsection \<open>Destination of a source in the package\<close>

text \<open>
  Claim C4. What \<open>RedirectedPath\<close> computes, for every source, target and file system. It
  takes the branch "target in package" when the lower-cased full path of the source contains
  the package root as a substring, and the other branch otherwise. In the first branch the
  tail is the full path without its first \<open>n\<close> characters, \<open>n\<close> being the length of the
  package root when the lower-cased full path is drive-absolute and the length of the final
  package root otherwise; \<^verbatim>\<open>substr\<close> throws when the full path is shorter. With the writable
  package root as target the destination is the destination root followed by the tail; with
  another target it is the destination root, \<^verbatim>\<open>\PackageCache\\<close>, the package family name and
  the tail. The result does not depend on the file system or on \<open>ensureDirectoryStructure\<close>.

  For a source under the package root this is the mapping of the claim. But the test looks
  for a substring and the cut counts characters, and neither looks for a directory boundary
  behind the root, as \<^verbatim>\<open>DeVirtualizePath\<close> and the rule loop do. So a source beside the package
  root whose name begins with the root's name is taken for a source under it, where the claim
  says "exactly for sources that lie under the package root": with the package root
  \<^verbatim>\<open>c:\p\<close>, the source \<^verbatim>\<open>c:\pq\f.txt\<close> gets the tail \<^verbatim>\<open>q\f.txt\<close> and the destination
  \<^verbatim>\<open>\\?\C:\L\Wq\f.txt\<close>, which is not under the destination root \<^verbatim>\<open>\\?\C:\L\W\<close>.
\<close>

theorem in_package_mapping:
  "(\<forall>pre suf. map towlower (full_path np) = pre @ g_packageRootPath G @ suf \<longrightarrow>
      fst (RedirectedPath P G np ensure target fs)
      = (let n = (if psf_path_type P (map towlower (full_path np)) = drive_absolute
                  then length (g_packageRootPath G) else length (g_finalPackageRootPath G))
         in if length (full_path np) < n then Inl out_of_range
            else Inr (RedirectedPath_basePath P G target
                      @ (if wcsicmp_eq target (g_writablePackageRootPath G) then []
                         else bs # ''PackageCache'' @ [bs] @ psf_current_package_family_name P)
                      @ drop n (full_path np))))
   \<and> (\<not> (\<exists>pre suf. map towlower (full_path np) = pre @ g_packageRootPath G @ suf) \<longrightarrow>
      fst (RedirectedPath P G np ensure target fs)
      = (case drive_absolute_path np of
           None \<Rightarrow> Inl access_violation
         | Some dap \<Rightarrow>
             if length dap < 2 then Inl access_violation
             else Inr (RedirectedPath_basePath P G target
                       @ (if wcsicmp_eq target (g_redirectRootPath G) then [bs]
                          else bs # ''PackageCache'' @ [bs] @ psf_current_package_family_name P
                               @ bs # ''VFS'' @ bs # ''PackageDrive'')
                       @ [bs, hd dap, CHR ''$''] @ drop 2 dap)))"
  by (auto simp: RedirectedPath_fst RedirectedPath_relativePath_in_package
      RedirectedPath_relativePath_outside Let_def split: option.splits)

text \<open>
  On the sample configuration: a source in the package with the default target, with a
  target of the caller's, a source in \<^verbatim>\<open>\\?\\<close> form, whose tail starts behind the final
  package root, and a source outside the package, which gets the other branch; then the
  source \<^verbatim>\<open>c:\pq\f.txt\<close> beside the package root, with the default target and with a target of
  the caller's, where the letter \<^verbatim>\<open>q\<close> ends up behind the package family name.
\<close>

theorem in_package_mapping_witness:
  "fst (RedirectedPath sample_platform sample_globals sample_vfspath False (win ''C:|L|W'') [])
     = Inr (win ''||?|C:|L|W|VFS|Windows|a.ini'')
   \<and> fst (RedirectedPath sample_platform sample_globals sample_vfspath False (win ''H:|home|'') [])
     = Inr (win ''||?|H:|home|PackageCache|Fam|VFS|Windows|a.ini'')
   \<and> fst (RedirectedPath sample_platform sample_globals
            \<lparr>full_path = win ''||?|C:|p|f.txt'', drive_absolute_path = Some (win ''C:|p|f.txt'')\<rparr>
            False (win ''C:|L|W'') [])
     = Inr (win ''||?|C:|L|W|f.txt'')
   \<and> fst (RedirectedPath sample_platform sample_globals
            \<lparr>full_path = win ''D:|Users|me|f.txt'', drive_absolute_path = Some (win ''D:|Users|me|f.txt'')\<rparr>
            False (win ''H:|home|'') [])
     = Inr (win ''||?|H:|home|PackageCache|Fam|VFS|PackageDrive|D$|Users|me|f.txt'')
   \<and> fst (RedirectedPath sample_platform sample_globals
            \<lparr>full_path = win ''c:|pq|f.txt'', drive_absolute_path = Some (win ''c:|pq|f.txt'')\<rparr>
            False (win ''C:|L|W'') [])
     = Inr (win ''||?|C:|L|Wq|f.txt'')
   \<and> fst (RedirectedPath sample_platform sample_globals
            \<lparr>full_path = win ''c:|pq|f.txt'', drive_absolute_path = Some (win ''c:|pq|f.txt'')\<rparr>
            False (win ''H:|home|'') [])
     = Inr (win ''||?|H:|home|PackageCache|Famq|f.txt'')"
proof -
  let ?s = "\<lparr>full_path = win ''c:|pq|f.txt'', drive_absolute_path = Some (win ''c:|pq|f.txt'')\<rparr>"
  have h1: "map towlower (full_path sample_vfspath)
            = [] @ g_packageRootPath sample_globals @ win ''|vfs|windows|a.ini''"
    by code_simp
  have h2: "map towlower (full_path \<lparr>full_path = win ''||?|C:|p|f.txt'',
                                     drive_absolute_path = Some (win ''C:|p|f.txt'')\<rparr>)
            = win ''||?|'' @ g_packageRootPath sample_globals @ win ''|f.txt''"
    by code_simp
  have a0: "fst (RedirectedPath sample_platform sample_globals sample_vfspath False
                  (win ''C:|L|W'') [])
           = (let n = (if psf_path_type sample_platform (map towlower (full_path sample_vfspath))
                          = drive_absolute
                       then length (g_packageRootPath sample_globals)
                       else length (g_finalPackageRootPath sample_globals))
              in if length (full_path sample_vfspath) < n then Inl out_of_range
                 else Inr (RedirectedPath_basePath sample_platform sample_globals (win ''C:|L|W'')
                           @ (if wcsicmp_eq (win ''C:|L|W'') (g_writablePackageRootPath sample_globals)
                              then []
                              else bs # ''PackageCache'' @ [bs]
                                   @ psf_current_package_family_name sample_platform)
                           @ drop n (full_path sample_vfspath)))"
    using in_package_mapping [of "sample_vfspath" sample_globals sample_platform False
        "win ''C:|L|W''" "[]"] h1
    by blast
  have a: "fst (RedirectedPath sample_platform sample_globals sample_vfspath False
                  (win ''C:|L|W'') [])
           = Inr (win ''||?|C:|L|W|VFS|Windows|a.ini'')"
    unfolding a0
    by (simp add: RedirectedPath_basePath_def wcsicmp_eq_def sample_vfspath_def sample_globals_def
        sample_platform_def sample_path_type_def has_drive_letter_prefix_def
        win_def bs_def towlower_def is_slash_def)
  have b0: "fst (RedirectedPath sample_platform sample_globals sample_vfspath False
                  (win ''H:|home|'') [])
           = (let n = (if psf_path_type sample_platform (map towlower (full_path sample_vfspath))
                          = drive_absolute
                       then length (g_packageRootPath sample_globals)
                       else length (g_finalPackageRootPath sample_globals))
              in if length (full_path sample_vfspath) < n then Inl out_of_range
                 else Inr (RedirectedPath_basePath sample_platform sample_globals (win ''H:|home|'')
                           @ (if wcsicmp_eq (win ''H:|home|'') (g_writablePackageRootPath sample_globals)
                              then []
                              else bs # ''PackageCache'' @ [bs]
                                   @ psf_current_package_family_name sample_platform)
                           @ drop n (full_path sample_vfspath)))"
    using in_package_mapping [of "sample_vfspath" sample_globals sample_platform False
        "win ''H:|home|''" "[]"] h1
    by blast
  have b: "fst (RedirectedPath sample_platform sample_globals sample_vfspath False
                  (win ''H:|home|'') [])
           = Inr (win ''||?|H:|home|PackageCache|Fam|VFS|Windows|a.ini'')"
    unfolding b0
    by (simp add: RedirectedPath_basePath_def wcsicmp_eq_def sample_vfspath_def sample_globals_def
        sample_platform_def sample_path_type_def has_drive_letter_prefix_def
        win_def bs_def towlower_def is_slash_def)
  have c0: "fst (RedirectedPath sample_platform sample_globals \<lparr>full_path = win ''||?|C:|p|f.txt'', drive_absolute_path = Some (win ''C:|p|f.txt'')\<rparr> False
                  (win ''C:|L|W'') [])
           = (let n = (if psf_path_type sample_platform (map towlower (full_path \<lparr>full_path = win ''||?|C:|p|f.txt'', drive_absolute_path = Some (win ''C:|p|f.txt'')\<rparr>))
                          = drive_absolute
                       then length (g_packageRootPath sample_globals)
                       else length (g_finalPackageRootPath sample_globals))
              in if length (full_path \<lparr>full_path = win ''||?|C:|p|f.txt'', drive_absolute_path = Some (win ''C:|p|f.txt'')\<rparr>) < n then Inl out_of_range
                 else Inr (RedirectedPath_basePath sample_platform sample_globals (win ''C:|L|W'')
                           @ (if wcsicmp_eq (win ''C:|L|W'') (g_writablePackageRootPath sample_globals)
                              then []
                              else bs # ''PackageCache'' @ [bs]
                                   @ psf_current_package_family_name sample_platform)
                           @ drop n (full_path \<lparr>full_path = win ''||?|C:|p|f.txt'', drive_absolute_path = Some (win ''C:|p|f.txt'')\<rparr>)))"
    using in_package_mapping [of "\<lparr>full_path = win ''||?|C:|p|f.txt'', drive_absolute_path = Some (win ''C:|p|f.txt'')\<rparr>" sample_globals sample_platform False
        "win ''C:|L|W''" "[]"] h2
    by blast
  have c: "fst (RedirectedPath sample_platform sample_globals \<lparr>full_path = win ''||?|C:|p|f.txt'', drive_absolute_path = Some (win ''C:|p|f.txt'')\<rparr> False
                  (win ''C:|L|W'') [])
           = Inr (win ''||?|C:|L|W|f.txt'')"
    unfolding c0
    by (simp add: RedirectedPath_basePath_def wcsicmp_eq_def sample_vfspath_def sample_globals_def
        sample_platform_def sample_path_type_def has_drive_letter_prefix_def
        win_def bs_def towlower_def is_slash_def)
  have "wstring_find (map towlower (full_path \<lparr>full_path = win ''D:|Users|me|f.txt'',
           drive_absolute_path = Some (win ''D:|Users|me|f.txt'')\<rparr>))
          (g_packageRootPath sample_globals) = None"
    by code_simp
  then have h3: "\<not> (\<exists>pre suf. map towlower (full_path \<lparr>full_path = win ''D:|Users|me|f.txt'',
           drive_absolute_path = Some (win ''D:|Users|me|f.txt'')\<rparr>)
          = pre @ g_packageRootPath sample_globals @ suf)"
    unfolding wstring_find_None_iff .
  have d0: "fst (RedirectedPath sample_platform sample_globals
            \<lparr>full_path = win ''D:|Users|me|f.txt'', drive_absolute_path = Some (win ''D:|Users|me|f.txt'')\<rparr>
            False (win ''H:|home|'') [])
      = (case drive_absolute_path \<lparr>full_path = win ''D:|Users|me|f.txt'',
                 drive_absolute_path = Some (win ''D:|Users|me|f.txt'')\<rparr> of
           None \<Rightarrow> Inl access_violation
         | Some dap \<Rightarrow>
             if length dap < 2 then Inl access_violation
             else Inr (RedirectedPath_basePath sample_platform sample_globals (win ''H:|home|'')
                       @ (if wcsicmp_eq (win ''H:|home|'') (g_redirectRootPath sample_globals) then [bs]
                          else bs # ''PackageCache'' @ [bs]
                               @ psf_current_package_family_name sample_platform
                               @ bs # ''VFS'' @ bs # ''PackageDrive'')
                       @ [bs, hd dap, CHR ''$''] @ drop 2 dap))"
    using in_package_mapping [of "\<lparr>full_path = win ''D:|Users|me|f.txt'',
          drive_absolute_path = Some (win ''D:|Users|me|f.txt'')\<rparr>" sample_globals sample_platform
        False "win ''H:|home|''" "[]"] h3
    by blast
  have d: "fst (RedirectedPath sample_platform sample_globals
            \<lparr>full_path = win ''D:|Users|me|f.txt'', drive_absolute_path = Some (win ''D:|Users|me|f.txt'')\<rparr>
            False (win ''H:|home|'') [])
     = Inr (win ''||?|H:|home|PackageCache|Fam|VFS|PackageDrive|D$|Users|me|f.txt'')"
    unfolding d0
    by (simp add: RedirectedPath_basePath_def wcsicmp_eq_def sample_globals_def
        sample_platform_def win_def bs_def towlower_def is_slash_def)
  have h4: "map towlower (full_path ?s) = [] @ g_packageRootPath sample_globals @ win ''q|f.txt''"
    by code_simp
  have e0: "fst (RedirectedPath sample_platform sample_globals ?s False (win ''C:|L|W'') [])
           = (let n = (if psf_path_type sample_platform (map towlower (full_path ?s))
                          = drive_absolute
                       then length (g_packageRootPath sample_globals)
                       else length (g_finalPackageRootPath sample_globals))
              in if length (full_path ?s) < n then Inl out_of_range
                 else Inr (RedirectedPath_basePath sample_platform sample_globals (win ''C:|L|W'')
                           @ (if wcsicmp_eq (win ''C:|L|W'') (g_writablePackageRootPath sample_globals)
                              then []
                              else bs # ''PackageCache'' @ [bs]
                                   @ psf_current_package_family_name sample_platform)
                           @ drop n (full_path ?s)))"
    using in_package_mapping [of ?s sample_globals sample_platform False "win ''C:|L|W''" "[]"] h4
    by blast
  have e: "fst (RedirectedPath sample_platform sample_globals ?s False (win ''C:|L|W'') [])
           = Inr (win ''||?|C:|L|Wq|f.txt'')"
    unfolding e0
    by (simp add: RedirectedPath_basePath_def wcsicmp_eq_def sample_globals_def
        sample_platform_def sample_path_type_def has_drive_letter_prefix_def
        win_def bs_def towlower_def is_slash_def)
  have f0: "fst (RedirectedPath sample_platform sample_globals ?s False (win ''H:|home|'') [])
           = (let n = (if psf_path_type sample_platform (map towlower (full_path ?s))
                          = drive_absolute
                       then length (g_packageRootPath sample_globals)
                       else length (g_finalPackageRootPath sample_globals))
              in if length (full_path ?s) < n then Inl out_of_range
                 else Inr (RedirectedPath_basePath sample_platform sample_globals (win ''H:|home|'')
                           @ (if wcsicmp_eq (win ''H:|home|'') (g_writablePackageRootPath sample_globals)
                              then []
                              else bs # ''PackageCache'' @ [bs]
                                   @ psf_current_package_family_name sample_platform)
                           @ drop n (full_path ?s)))"
    using in_package_mapping [of ?s sample_globals sample_platform False "win ''H:|home|''" "[]"] h4
    by blast
  have f: "fst (RedirectedPath sample_platform sample_globals ?s False (win ''H:|home|'') [])
           = Inr (win ''||?|H:|home|PackageCache|Famq|f.txt'')"
    unfolding f0
    by (simp add: RedirectedPath_basePath_def wcsicmp_eq_def sample_globals_def
        sample_platform_def sample_path_type_def has_drive_letter_prefix_def
        win_def bs_def towlower_def is_slash_def)
  from a b c d e f show ?thesis by blast
qed

text \<open>
  The same source through \<open>ShouldRedirect\<close>, under the rule on the package's drive, with
  \<^verbatim>\<open>ensure_directory_structure\<close> and an empty file system. \<^verbatim>\<open>c:\pq\f.txt\<close> is its own normal
  form, and the character behind the package root in it is no separator: the source is not
  under the package root. It is redirected to \<^verbatim>\<open>\\?\C:\L\Wq\f.txt\<close>, and the directory
  \<^verbatim>\<open>\\?\C:\L\Wq\<close> is created beside the destination root.
\<close>

theorem in_package_mapping_counterexample:
  "NormalizePath sample_platform (Some (win ''c:|pq|f.txt''))
     = \<lparr>full_path = win ''c:|pq|f.txt'', drive_absolute_path = Some (win ''c:|pq|f.txt'')\<rparr>
   \<and> take (length (g_packageRootPath sample_globals)) (win ''c:|pq|f.txt'')
     = g_packageRootPath sample_globals
   \<and> \<not> psf_is_path_separator sample_platform
         (win ''c:|pq|f.txt'' ! length (g_packageRootPath sample_globals))
   \<and> ShouldRedirect sample_platform sample_drive_globals (Some (win ''c:|pq|f.txt''))
       {ensure_directory_structure} []
     = (Inr \<lparr>should_redirect = True, redirect_path = win ''||?|C:|L|Wq|f.txt'',
             shouldReadonly = False\<rparr>,
        [(win ''||?|C:|L|Wq'', True), (win ''||?|C:|L|W'', True)])"
  by code_simp

subsection \<open>Destination of a source outside the package\<close>



subsection \<open>Presence check\<close>

text \<open>
  Claim C6. Let an inclusion rule be the first that applies to the path, let \<open>dest\<close> be the
  destination \<open>RedirectedPath\<close> computed for it and \<open>fs1\<close> the file system after that. With
  the flag \<open>check_file_presence\<close> set, \<open>ShouldRedirect\<close> takes the decision back, answering
  "no redirect" with an empty redirect path, exactly when none of \<open>dest\<close>, the VFS form
  \<open>vdap\<close> and the devirtualised path \<open>ndap\<close> exists in \<open>fs1\<close>; when one of them exists the
  answer is "redirect" to \<open>dest\<close>. The two answers differ, so the condition is necessary and
  sufficient.
\<close>

theorem presence_check_retracts:
  assumes "NormalizePath P (Some s) = np"
    and "drive_absolute_path np = Some d"
    and "drive_absolute_path (DeVirtualizePath P G np) = Some ndap"
    and "drive_absolute_path (VirtualizePath P G np) = Some vdap"
    and "List.find (rule_applies P vdap) (g_redirectionSpecs G) = Some spec"
    and "\<not> isExclusion spec"
    and "RedirectedPath P G (VirtualizePath P G np)
                 (flag_set flags ensure_directory_structure) (redirect_targetbase spec) fs
               = (Inr dest, fs1)"
    and "check_file_presence \<in> flags"
  shows "(if \<not> impl_PathExists P fs1 dest \<and> \<not> impl_PathExists P fs1 vdap
             \<and> \<not> impl_PathExists P fs1 ndap
          then ShouldRedirect P G (Some s) flags fs
               = (Inr \<lparr>should_redirect = False, redirect_path = [],
                       shouldReadonly = isReadOnly spec\<rparr>, fs1)
          else fst (ShouldRedirect P G (Some s) flags fs)
               = Inr \<lparr>should_redirect = True, redirect_path = dest,
                      shouldReadonly = isReadOnly spec\<rparr>)"
  using assms(8)
  by (simp add: ShouldRedirectImpl_inclusion [OF assms(1-7)] ShouldRedirect_finish_def flag_set_def)

theorem presence_check_retracts_witness:
  "ShouldRedirect sample_platform sample_globals (Some sample_path) {check_file_presence} []
     = (Inr \<lparr>should_redirect = False, redirect_path = [], shouldReadonly = True\<rparr>, [])
   \<and> fst (ShouldRedirect sample_platform sample_globals (Some sample_path) {check_file_presence}
            [(sample_path, False)])
     = Inr \<lparr>should_redirect = True, redirect_path = win ''||?|C:|L|W|VFS|Windows|a.ini'',
            shouldReadonly = True\<rparr>"
proof -
  have fe: "flag_set {check_file_presence} ensure_directory_structure = False"
    by (simp add: flag_set_def)
  have rd: "RedirectedPath sample_platform sample_globals
              (VirtualizePath sample_platform sample_globals
                 \<lparr>full_path = sample_path, drive_absolute_path = Some sample_path\<rparr>)
              (flag_set {check_file_presence} ensure_directory_structure)
              (redirect_targetbase sample_inclusion) fs
            = (Inr (win ''||?|C:|L|W|VFS|Windows|a.ini''), fs)" for fs
    unfolding fe by (rule sample_redirected_inclusion)
  have fl: "check_file_presence \<in> {check_file_presence}"
    by simp
  have e0: "\<not> impl_PathExists sample_platform [] x" for x
    by (simp add: sample_platform_def)
  have e1: "impl_PathExists sample_platform [(sample_path, False)] sample_path"
    by (auto simp: sample_platform_def)
  have a: "ShouldRedirect sample_platform sample_globals (Some sample_path) {check_file_presence} []
     = (Inr \<lparr>should_redirect = False, redirect_path = [], shouldReadonly = True\<rparr>, [])"
    using presence_check_retracts [OF sample_normalize _ sample_devirtualize_dap
        sample_virtualize_dap sample_find sample_inclusion_flags(1) rd fl, of sample_path "[]"]
    by (simp add: sample_inclusion_flags(2) e0)
  have b: "fst (ShouldRedirect sample_platform sample_globals (Some sample_path) {check_file_presence}
            [(sample_path, False)])
     = Inr \<lparr>should_redirect = True, redirect_path = win ''||?|C:|L|W|VFS|Windows|a.ini'',
            shouldReadonly = True\<rparr>"
    using presence_check_retracts [OF sample_normalize _ sample_devirtualize_dap
        sample_virtualize_dap sample_find sample_inclusion_flags(1) rd fl,
        of sample_path "[(sample_path, False)]"]
    by (simp add: sample_inclusion_flags(2) e1)
  from a b show ?thesis by blast
qed

subsection \<open>Copy on redirect\<close>

text \<open>
  Claim C7. Let an inclusion rule be the first that applies, with destination \<open>dest\<close>, and
  let the decision stand after the presence check. With the flag \<open>copy_file\<close> set and \<open>dest\<close>
  not existing, the file system \<open>ShouldRedirect\<close> leaves is the one a single copy call
  leaves: from the VFS form if it exists, else from the devirtualised path, to \<open>dest\<close>;
  \<^verbatim>\<open>CopyFileEx\<close> for a source whose attributes lack the directory bit, with
  \<^verbatim>\<open>COPY_FILE_FAIL_IF_EXISTS\<close> among its flags, \<^verbatim>\<open>CreateDirectoryEx\<close> otherwise (a directory,
  or attributes that cannot be read). Whether the call succeeds does not enter the answer: it is "redirect" to \<open>dest\<close> in every case,
  and \<open>dest\<close> is the destination root followed by the relative path, whatever creating
  directories did. The witness runs a copy that succeeds and one that fails for want of a
  source.
\<close>

theorem copy_on_redirect:
  assumes "NormalizePath P (Some s) = np"
    and "drive_absolute_path np = Some d"
    and "drive_absolute_path (DeVirtualizePath P G np) = Some ndap"
    and "drive_absolute_path (VirtualizePath P G np) = Some vdap"
    and "List.find (rule_applies P vdap) (g_redirectionSpecs G) = Some spec"
    and "\<not> isExclusion spec"
    and "RedirectedPath P G (VirtualizePath P G np)
                 (flag_set flags ensure_directory_structure) (redirect_targetbase spec) fs
               = (Inr dest, fs1)"
    and "copy_file \<in> flags"
    and "check_file_presence \<notin> flags \<or> impl_PathExists P fs1 vdap \<or> impl_PathExists P fs1 ndap"
    and "\<not> impl_PathExists P fs1 dest"
    and "CopySource = (if impl_PathExists P fs1 vdap then vdap else ndap)"
  shows "ShouldRedirect P G (Some s) flags fs
         = (Inr \<lparr>should_redirect = True, redirect_path = dest, shouldReadonly = isReadOnly spec\<rparr>,
            if impl_GetFileAttributes P fs1 CopySource AND FILE_ATTRIBUTE_DIRECTORY
               \<noteq> FILE_ATTRIBUTE_DIRECTORY
            then snd (impl_CopyFileEx P CopySource dest
                        (COPY_FILE_FAIL_IF_EXISTS OR COPY_FILE_NO_BUFFERING) fs1)
            else snd (impl_CreateDirectoryEx P CopySource dest fs1))
         \<and> (COPY_FILE_FAIL_IF_EXISTS OR COPY_FILE_NO_BUFFERING) AND COPY_FILE_FAIL_IF_EXISTS
             = COPY_FILE_FAIL_IF_EXISTS
         \<and> (\<exists>relativePath.
               RedirectedPath_relativePath P G (VirtualizePath P G np) (redirect_targetbase spec)
                 = Inr relativePath
               \<and> dest = RedirectedPath_basePath P G (redirect_targetbase spec) @ relativePath)"
proof -
  have a: "ShouldRedirect P G (Some s) flags fs
         = (Inr \<lparr>should_redirect = True, redirect_path = dest, shouldReadonly = isReadOnly spec\<rparr>,
            if impl_GetFileAttributes P fs1 CopySource AND FILE_ATTRIBUTE_DIRECTORY
               \<noteq> FILE_ATTRIBUTE_DIRECTORY
            then snd (impl_CopyFileEx P CopySource dest
                        (COPY_FILE_FAIL_IF_EXISTS OR COPY_FILE_NO_BUFFERING) fs1)
            else snd (impl_CreateDirectoryEx P CopySource dest fs1))"
    using assms(8-11)
    by (auto simp: ShouldRedirectImpl_inclusion [OF assms(1-7)] ShouldRedirect_finish_def
        flag_set_def ShouldRedirect_copy_def Let_def)
  have b: "(COPY_FILE_FAIL_IF_EXISTS OR COPY_FILE_NO_BUFFERING) AND COPY_FILE_FAIL_IF_EXISTS
             = COPY_FILE_FAIL_IF_EXISTS"
    by (simp add: COPY_FILE_FAIL_IF_EXISTS_def COPY_FILE_NO_BUFFERING_def)
  have "fst (RedirectedPath P G (VirtualizePath P G np)
                 (flag_set flags ensure_directory_structure) (redirect_targetbase spec) fs) = Inr dest"
    by (simp add: assms(7))
  then have c: "\<exists>relativePath.
               RedirectedPath_relativePath P G (VirtualizePath P G np) (redirect_targetbase spec)
                 = Inr relativePath
               \<and> dest = RedirectedPath_basePath P G (redirect_targetbase spec) @ relativePath"
    by (auto simp: RedirectedPath_fst split: sum.splits)
  from a b c show ?thesis by blast
qed


theorem copy_on_redirect_witness:
  "ShouldRedirect sample_platform sample_globals (Some sample_path) {copy_file}
       [(sample_path, False)]
     = (Inr \<lparr>should_redirect = True, redirect_path = win ''||?|C:|L|W|VFS|Windows|a.ini'',
             shouldReadonly = True\<rparr>,
        [(win ''||?|C:|L|W|VFS|Windows|a.ini'', False), (sample_path, False)])
   \<and> ShouldRedirect sample_platform sample_globals (Some sample_path) {copy_file} []
     = (Inr \<lparr>should_redirect = True, redirect_path = win ''||?|C:|L|W|VFS|Windows|a.ini'',
             shouldReadonly = True\<rparr>, [])"
proof -
  have fe: "flag_set {copy_file} ensure_directory_structure = False"
    by (simp add: flag_set_def)
  have rd: "RedirectedPath sample_platform sample_globals
              (VirtualizePath sample_platform sample_globals
                 \<lparr>full_path = sample_path, drive_absolute_path = Some sample_path\<rparr>)
              (flag_set {copy_file} ensure_directory_structure)
              (redirect_targetbase sample_inclusion) fs
            = (Inr (win ''||?|C:|L|W|VFS|Windows|a.ini''), fs)" for fs
    unfolding fe by (rule sample_redirected_inclusion)
  have fl: "copy_file \<in> {copy_file}" "check_file_presence \<notin> {copy_file}"
    by simp_all
  have ne: "\<not> impl_PathExists sample_platform [(sample_path, False)]
                (win ''||?|C:|L|W|VFS|Windows|a.ini'')"
       "\<not> impl_PathExists sample_platform [(sample_path, False)] (win ''c:|p|VFS|Windows|a.ini'')"
    by (simp_all add: sample_platform_def sample_path_def win_def bs_def)
  have e0: "\<not> impl_PathExists sample_platform [] x" for x
    by (simp add: sample_platform_def)
  have cp: "snd (impl_CopyFileEx sample_platform sample_path (win ''||?|C:|L|W|VFS|Windows|a.ini'')
                  (COPY_FILE_FAIL_IF_EXISTS OR COPY_FILE_NO_BUFFERING) [(sample_path, False)])
            = [(win ''||?|C:|L|W|VFS|Windows|a.ini'', False), (sample_path, False)]"
    by (simp add: sample_platform_def sample_path_def win_def bs_def)
  have at: "impl_GetFileAttributes sample_platform [(sample_path, False)] sample_path
              AND FILE_ATTRIBUTE_DIRECTORY \<noteq> FILE_ATTRIBUTE_DIRECTORY"
    by (simp add: sample_platform_def FILE_ATTRIBUTE_DIRECTORY_def)
  have at0: "impl_GetFileAttributes sample_platform [] x AND FILE_ATTRIBUTE_DIRECTORY
              = FILE_ATTRIBUTE_DIRECTORY" for x
    by (simp add: sample_platform_def FILE_ATTRIBUTE_DIRECTORY_def)
  have cd: "snd (impl_CreateDirectoryEx sample_platform x y []) = []" for x y
    by (simp add: sample_platform_def)
  have a: "ShouldRedirect sample_platform sample_globals (Some sample_path) {copy_file}
       [(sample_path, False)]
     = (Inr \<lparr>should_redirect = True, redirect_path = win ''||?|C:|L|W|VFS|Windows|a.ini'',
             shouldReadonly = True\<rparr>,
        [(win ''||?|C:|L|W|VFS|Windows|a.ini'', False), (sample_path, False)])"
    using copy_on_redirect [OF sample_normalize _ sample_devirtualize_dap sample_virtualize_dap
        sample_find sample_inclusion_flags(1) rd fl(1) _ ne(1) refl, of sample_path]
    by (simp add: sample_inclusion_flags(2) ne at cp)
  have b: "ShouldRedirect sample_platform sample_globals (Some sample_path) {copy_file} []
     = (Inr \<lparr>should_redirect = True, redirect_path = win ''||?|C:|L|W|VFS|Windows|a.ini'',
             shouldReadonly = True\<rparr>, [])"
    using copy_on_redirect [OF sample_normalize _ sample_devirtualize_dap sample_virtualize_dap
        sample_find sample_inclusion_flags(1) rd fl(1) _ e0 refl, of sample_path]
    by (simp add: sample_inclusion_flags(2) e0 at0 cd)
  from a b show ?thesis by blast
qed

subsection \<open>Pass-through of shell item and blob names\<close>

text \<open>
  Claim C8. An input that begins with \<^verbatim>\<open>::{\<close> and is longer than 39 characters, or that
  begins with \<^verbatim>\<open>blob:\<close> or \<^verbatim>\<open>BLOB:\<close>, is returned by \<open>NormalizePath\<close> as it is, as the
  full path and with no drive-absolute form: nothing is decoded, stripped or canonicalised.
  \<open>ShouldRedirect\<close> then answers "no redirect" and leaves the file system alone, for every
  platform, configuration and flag set.
\<close>

theorem guid_blob_passthrough:
  assumes "(length s > 39 \<and> (\<exists>r. s = ''::{'' @ r))
           \<or> (\<exists>r. s = ''blob:'' @ r) \<or> (\<exists>r. s = ''BLOB:'' @ r)"
  shows "NormalizePath P (Some s) = \<lparr>full_path = s, drive_absolute_path = None\<rparr>
         \<and> ShouldRedirect P G (Some s) flags fs = (Inr no_redirect, fs)"
proof -
  from assms have "IsColonColonGuid s \<or> IsBlobColon s"
    by (auto simp: IsColonColonGuid_def IsBlobColon_def find_at_0_def)
  then have "NormalizePath P (Some s) = \<lparr>full_path = s, drive_absolute_path = None\<rparr>"
    by (rule NormalizePath_passthrough)
  then show ?thesis
    by (simp add: ShouldRedirect_def ShouldRedirectImpl_def)
qed

theorem guid_blob_passthrough_witness:
  "NormalizePath sample_platform (Some ''::{20D04FE0-3AEA-1069-A2D8-08002B30309D}'')
     = \<lparr>full_path = ''::{20D04FE0-3AEA-1069-A2D8-08002B30309D}'', drive_absolute_path = None\<rparr>
   \<and> ShouldRedirect sample_platform sample_globals
         (Some ''::{20D04FE0-3AEA-1069-A2D8-08002B30309D}'') {check_file_presence} []
       = (Inr no_redirect, [])"
  by (rule guid_blob_passthrough) simp

subsection \<open>UNC paths\<close>

text \<open>
  Claim C9. Let \<open>p\<close> be the string that \<open>NormalizePath\<close> hands to \<open>NormalizePathImpl\<close>. When
  \<open>p\<close> is UNC-absolute, and its canonical form \<open>psf_full_path P p\<close> is classified as
  UNC-absolute again, the normal form has the canonical full path and no drive-absolute
  form, and \<open>ShouldRedirect\<close> answers "no redirect" whatever the rules are, leaving the file
  system alone. The witness is an administrative share that names a file a rule of the
  sample configuration redirects under its drive-absolute name.
\<close>

theorem unc_path_not_redirected:
  assumes "s \<noteq> []" and "\<not> IsColonColonGuid s" and "\<not> IsBlobColon s"
    and "p = StripFileColonSlash (UrlDecode P s)"
    and "psf_path_type P p = unc_absolute"
    and "psf_path_type P (psf_full_path P p) = unc_absolute"
  shows "NormalizePathImpl P p = \<lparr>full_path = psf_full_path P p, drive_absolute_path = None\<rparr>
         \<and> NormalizePath P (Some s) = NormalizePathImpl P p
         \<and> ShouldRedirect P G (Some s) flags fs = (Inr no_redirect, fs)"
proof -
  from assms(5,6)
  have impl: "NormalizePathImpl P p = \<lparr>full_path = psf_full_path P p, drive_absolute_path = None\<rparr>"
    by (simp add: NormalizePathImpl_def set_drive_absolute_def Let_def)
  from assms(1-4) have norm: "NormalizePath P (Some s) = NormalizePathImpl P p"
    by (simp add: NormalizePath_def)
  from impl norm show ?thesis
    by (simp add: ShouldRedirect_def ShouldRedirectImpl_def)
qed

theorem unc_path_not_redirected_witness:
  "NormalizePathImpl sample_platform (win ''||localhost|D$|Users|me|f.txt'')
     = \<lparr>full_path = psf_full_path sample_platform (win ''||localhost|D$|Users|me|f.txt''),
        drive_absolute_path = None\<rparr>
   \<and> NormalizePath sample_platform (Some (win ''||localhost|D$|Users|me|f.txt''))
     = NormalizePathImpl sample_platform (win ''||localhost|D$|Users|me|f.txt'')
   \<and> ShouldRedirect sample_platform sample_globals (Some (win ''||localhost|D$|Users|me|f.txt''))
       {ensure_directory_structure} []
     = (Inr no_redirect, [])"
  by (rule unc_path_not_redirected)
    (simp_all add: IsColonColonGuid_def IsBlobColon_def find_at_0_def win_def bs_def
      StripFileColonSlash_def UrlDecode_def sample_platform_def sample_path_type_def
      sample_full_path_def has_drive_letter_prefix_def towlower_def is_slash_def)

subsection \<open>Null and empty input\<close>

text \<open>
  Claim C10. With a null pointer \<open>ShouldRedirect\<close> returns "no redirect" at once: the answer
  depends on no platform function, no rule and no file, and the file system is as before.
  The empty string is not null: \<open>NormalizePath\<close> treats it as \<^verbatim>\<open>"."\<close>, and the whole of
  \<open>ShouldRedirect\<close> then runs as it does for \<^verbatim>\<open>"."\<close>. The two inputs differ: on the sample
  platform, whose current directory lies under a rule, the empty string is redirected and the
  null pointer is not.
\<close>

theorem null_and_empty_input:
  "ShouldRedirect P G None flags fs = (Inr no_redirect, fs)
   \<and> NormalizePath P (Some []) = NormalizePathImpl P ''.''
   \<and> ShouldRedirect P G (Some []) flags fs = ShouldRedirect P G (Some ''.'') flags fs
   \<and> fst (ShouldRedirect sample_platform sample_globals (Some []) {} [])
       \<noteq> fst (ShouldRedirect sample_platform sample_globals None {} [])"
proof -
  have a: "ShouldRedirect P G None flags fs = (Inr no_redirect, fs)"
    by (simp add: ShouldRedirect_def ShouldRedirectImpl_def)
  have b: "NormalizePath P (Some []) = NormalizePathImpl P ''.''"
    by (simp add: NormalizePath_def)
  have "NormalizePath P (Some ''.'') = NormalizePathImpl P ''.''"
    by (simp add: NormalizePath_def IsColonColonGuid_def IsBlobColon_def find_at_0_def
        UrlDecode_def StripFileColonSlash_def)
  with b have e: "NormalizePath P (Some []) = NormalizePath P (Some ''.'')"
    by simp
  have c: "ShouldRedirect P G (Some []) flags fs = ShouldRedirect P G (Some ''.'') flags fs"
    unfolding ShouldRedirect_def ShouldRedirectImpl_def option.case e ..
  have d: "fst (ShouldRedirect sample_platform sample_globals (Some []) {} [])
       \<noteq> fst (ShouldRedirect sample_platform sample_globals None {} [])"
    by code_simp
  from a b c d show ?thesis by blast
qed

theorem null_and_empty_input_witness:
  "ShouldRedirect sample_platform sample_globals None {copy_file} [] = (Inr no_redirect, [])
   \<and> ShouldRedirect sample_platform sample_globals (Some []) {copy_file} []
       = ShouldRedirect sample_platform sample_globals (Some ''.'') {copy_file} []"
  using null_and_empty_input [of sample_platform sample_globals "{copy_file}" "[]"]
  by blast

end
